theory Spec2Isabelle
  imports Main "HOL-Library.Sublist"
begin

section \<open>Python strings\<close>

text \<open>
  A Python \<open>str\<close> is modelled as a \<open>string\<close>; each \<open>char\<close> stands for the code point
  with the same number (U+0000 to U+00FF).  The predicates below are Python's
  \<open>str.isspace\<close> and \<open>str.isdigit\<close> on that range.
\<close>

definition py_isspace :: "char \<Rightarrow> bool" where
  "py_isspace c = (c \<in> set [CHR 0x09, CHR 0x0A, CHR 0x0B, CHR 0x0C, CHR 0x0D,
                              CHR 0x1C, CHR 0x1D, CHR 0x1E, CHR 0x1F, CHR 0x20,
                              CHR 0x85, CHR 0xA0])"

definition py_isdigit_char :: "char \<Rightarrow> bool" where
  "py_isdigit_char c = (c \<in> set (''0123456789'' @ [CHR 0xB2, CHR 0xB3, CHR 0xB9]))"

text \<open>\<open>s.isdigit()\<close>: at least one character, and every character a digit.\<close>

definition isdigit :: "string \<Rightarrow> bool" where
  "isdigit s = (s \<noteq> [] \<and> list_all py_isdigit_char s)"

definition lstrip :: "string \<Rightarrow> string" where
  "lstrip s = dropWhile py_isspace s"

definition rstrip :: "string \<Rightarrow> string" where
  "rstrip s = rev (dropWhile py_isspace (rev s))"

text \<open>\<open>s.strip()\<close> with no argument.\<close>

definition strip :: "string \<Rightarrow> string" where
  "strip s = rstrip (lstrip s)"

text \<open>\<open>s.split(sep)\<close> for a one-character separator: \<open>''''.split(sep) = ['''']\<close>.\<close>

fun split_on :: "char \<Rightarrow> string \<Rightarrow> string list" where
  "split_on sep [] = [[]]"
| "split_on sep (c # cs) =
     (if c = sep then [] # split_on sep cs
      else (case split_on sep cs of
              [] \<Rightarrow> [[c]]
            | w # ws \<Rightarrow> (c # w) # ws))"

abbreviation newline :: char where
  "newline \<equiv> CHR 0x0A"

text \<open>\<open>sep.join(xs)\<close>.\<close>

fun join_with :: "string \<Rightarrow> string list \<Rightarrow> string" where
  "join_with sep [] = []"
| "join_with sep [x] = x"
| "join_with sep (x # y # ys) = x @ sep @ join_with sep (y # ys)"

text \<open>\<open>sub in s\<close> for strings.\<close>

fun py_in :: "string \<Rightarrow> string \<Rightarrow> bool" where
  "py_in sub [] = (sub = [])"
| "py_in sub (c # cs) = (prefix sub (c # cs) \<or> py_in sub cs)"

text \<open>\<open>str(n)\<close> for an \<open>int\<close>: decimal digits, a minus sign in front when negative.\<close>

fun str_nat :: "nat \<Rightarrow> string" where
  "str_nat n =
     (if n < 10 then [''0123456789'' ! n]
      else str_nat (n div 10) @ [''0123456789'' ! (n mod 10)])"

declare str_nat.simps [simp del]

definition str_int :: "int \<Rightarrow> string" where
  "str_int i = (if i < 0 then CHR ''-'' # str_nat (nat (- i)) else str_nat (nat i))"

section \<open>The spreadsheet as the program reads it\<close>

text \<open>
  A float cell and a date cell are kept as the observations the program makes of them:
  truth value and \<open>str()\<close> for a float; \<open>str()\<close> and \<open>isoformat()\<close> for a
  \<open>datetime\<close> (which is always true in a condition).
\<close>

record pyfloat =
  float_truthy :: bool
  float_str :: string

record pydatetime =
  dt_str :: string
  dt_isoformat :: string

datatype cell_value =
    CNone
  | CBool bool
  | CInt int
  | CFloat pyfloat
  | CStr string
  | CDate pydatetime

text \<open>The truth value of a cell value in \<open>if value:\<close>.\<close>

fun truthy :: "cell_value \<Rightarrow> bool" where
  "truthy CNone = False"
| "truthy (CBool b) = b"
| "truthy (CInt i) = (i \<noteq> 0)"
| "truthy (CFloat f) = float_truthy f"
| "truthy (CStr s) = (s \<noteq> [])"
| "truthy (CDate d) = True"

fun py_str :: "cell_value \<Rightarrow> string" where
  "py_str CNone = ''None''"
| "py_str (CBool b) = (if b then ''True'' else ''False'')"
| "py_str (CInt i) = str_int i"
| "py_str (CFloat f) = float_str f"
| "py_str (CStr s) = s"
| "py_str (CDate d) = dt_str d"

text \<open>\<open>isinstance(v, int)\<close>: in Python \<open>bool\<close> is a subclass of \<open>int\<close>.\<close>

fun isinstance_int :: "cell_value \<Rightarrow> bool" where
  "isinstance_int (CInt i) = True"
| "isinstance_int (CBool b) = True"
| "isinstance_int _ = False"

text \<open>
  An embedded drawing: the zero-based (column, row) of its anchor's \<open>_from\<close> marker
  (\<open>None\<close> when the drawing has no such anchor), and the PNG bytes that decoding and
  re-encoding its data yields (\<open>None\<close> when that raises).
\<close>

record drawing =
  anchor_from :: "(nat \<times> nat) option"
  png :: "string option"

text \<open>
  A worksheet: \<open>cells sh r c\<close> is \<open>sh.cell(row=r, column=c).value\<close> for \<open>r, c \<ge> 1\<close>
  (\<open>CNone\<close> for an empty cell).  Reading a cell that does not exist yet yields
  \<open>None\<close>; the rows and columns such a read adds hold no value, so the bounds
  are kept as loaded.
\<close>

record sheet =
  title :: string
  cells :: "nat \<Rightarrow> nat \<Rightarrow> cell_value"
  max_row :: nat
  max_column :: nat
  images :: "drawing list"

type_synonym workbook = "sheet list"

datatype template = CEA | EQ | Starteam

text \<open>
  The exceptions of the model: the two the code can meet on a loaded workbook, any
  exception of the workbook parser, and a missing file.
\<close>

datatype error = IndexError | ValueError | LoadError | FileNotFoundError

section \<open>The records of the pipeline\<close>

text \<open>
  The dictionaries the program builds, as records.  A file reference has the keys
  \<open>id\<close>, \<open>createdAt\<close>, \<open>name\<close>, \<open>type\<close>, \<open>key\<close> and \<open>uploadUrl\<close>; it is used for
  images and for the original spreadsheet.
\<close>

record image_info =
  img_id :: string
  img_createdAt :: string
  img_name :: string
  img_type :: string
  img_key :: string
  img_uploadUrl :: string

text \<open>A question as \<open>extract_questions\<close> builds it.\<close>

record question =
  no :: string
  description :: "string option"
  suggestion :: "string option"
  customerResponse :: "string option"
  descriptionImages :: "image_info list"
  suggestionImages :: "image_info list"
  customerResponseImages :: "image_info list"
  createdAt :: "string option"

text \<open>A question as \<open>map_to_schema\<close> stores it in the document.\<close>

record eq_question =
  q_id :: string
  q_createdAt :: string
  q_no :: string
  q_description :: "string option"
  q_suggestion :: "string option"
  q_customerResponse :: "string option"
  q_descriptionImages :: "image_info list"
  q_suggestionImages :: "image_info list"
  q_customerResponseImages :: "image_info list"

text \<open>The dictionary \<open>eq\<close> of \<open>map_to_schema\<close>; each field is the key of that name.\<close>

record eq =
  eq_id :: string
  eq_createdAt :: string
  eq_customerName :: string
  eq_engineerName :: "string option"
  eq_customerPN :: "string list"
  eq_factoryPN :: "string list"
  eq_stgPN :: "string list"
  eq_baseMaterial :: "string option"
  eq_solderMask :: "string option"
  eq_viaPluggingType :: "string option"
  eq_panelSize :: "string option"
  eq_status :: string
  eq_stgSignatureDate :: "string option"
  eq_stgSignatures :: "string list"
  eq_customerSignatureDate :: "string option"
  eq_customerSignatures :: "string list"
  eq_fileName :: string
  eq_originalFile :: image_info
  eq_questions :: "eq_question list"

section \<open>Effects: identifiers, the clock and the libraries\<close>

text \<open>
  \<open>uuid.uuid4()\<close> and \<open>datetime.now()\<close> read the outside world.  The world
  is a tick counter: the \<open>n\<close>-th read returns \<open>uuid4 e n\<close> or \<open>now_isoformat e n\<close>
  of an environment \<open>e\<close>, and advances the counter.  The environment also holds the
  two library functions whose results the program only passes on: the parser behind
  \<open>load_workbook\<close>, from the bytes of a file to a workbook or an exception, and
  \<open>json.dumps\<close> on a document.
\<close>

record env =
  uuid4 :: "nat \<Rightarrow> string"
  now_isoformat :: "nat \<Rightarrow> string"
  parse_workbook :: "string \<Rightarrow> error + workbook"
  json_dumps :: "eq \<Rightarrow> string"

definition generate_uuid :: "env \<Rightarrow> nat \<Rightarrow> string \<times> nat" where
  "generate_uuid e w = (uuid4 e w, Suc w)"

definition datetime_now :: "env \<Rightarrow> nat \<Rightarrow> string \<times> nat" where
  "datetime_now e w = (now_isoformat e w, Suc w)"


section \<open>Paths\<close>

text \<open>\<open>os.path.join(a, b)\<close> on POSIX.\<close>

definition os_path_join :: "string \<Rightarrow> string \<Rightarrow> string" where
  "os_path_join a b =
     (if prefix ''/'' b then b
      else if a = [] \<or> last a = CHR ''/'' then a @ b
      else a @ ''/'' @ b)"

section \<open>Cell coordinates and the image map\<close>

text \<open>
  The key \<open>f"{col_letter}{row}"\<close> with \<open>col_letter = chr(n)\<close>.  The letter can be any
  code point, so a key is a list of code points: the letter's, then those of the
  row's decimal digits.
\<close>

type_synonym coord = "nat list"

definition ord_A :: nat where
  "ord_A = 65"

definition cell_coord :: "nat \<Rightarrow> nat \<Rightarrow> coord" where
  "cell_coord col_letter row = col_letter # map of_char (str_nat row)"

type_synonym image_map = "coord \<rightharpoonup> string list"

text \<open>\<open>cell_to_images.get(cell_coord, [])\<close>.\<close>

definition images_get :: "image_map \<Rightarrow> coord \<Rightarrow> string list" where
  "images_get m k = (case m k of None \<Rightarrow> [] | Some names \<Rightarrow> names)"

definition get_cell_value_with_images ::
  "sheet \<Rightarrow> nat \<Rightarrow> nat \<Rightarrow> image_map \<Rightarrow> string \<times> string list" where
  "get_cell_value_with_images worksheet row col cell_to_images =
     (let v = cells worksheet row col;
          cell_value = (if v \<noteq> CNone then py_str v else []);
          col_letter = ord_A + col - 1;
          coord = cell_coord col_letter row;
          imgs = images_get cell_to_images coord
      in (cell_value, imgs))"

section \<open>The question table\<close>

text \<open>\<open>create_image_info\<close>, given the \<open>filename\<close> and \<open>path\<close> entries of its argument.\<close>

definition create_image_info :: "env \<Rightarrow> string \<Rightarrow> string \<Rightarrow> nat \<Rightarrow> image_info \<times> nat" where
  "create_image_info e filename path w =
     (case generate_uuid e w of (image_id, w1) \<Rightarrow>
      case datetime_now e w1 of (created, w2) \<Rightarrow>
      case generate_uuid e w2 of (k, w3) \<Rightarrow>
        (\<lparr>img_id = image_id, img_createdAt = created, img_name = filename,
          img_type = ''image/png'', img_key = k, img_uploadUrl = path\<rparr>, w3))"

text \<open>
  The loop \<open>for img_filename in names: lst.append(create_image_info(...))\<close>, run on the
  list \<open>acc\<close>.
\<close>

fun append_image_infos ::
  "env \<Rightarrow> string list \<Rightarrow> image_info list \<Rightarrow> nat \<Rightarrow> image_info list \<times> nat" where
  "append_image_infos e [] acc w = (acc, w)"
| "append_image_infos e (img_filename # rest) acc w =
     (case create_image_info e img_filename (os_path_join ''images'' img_filename) w of
        (image_info, w') \<Rightarrow> append_image_infos e rest (acc @ [image_info]) w')"

text \<open>
  The assignment \<open>if text and text.strip(): question[field] = text.strip()\<close> on a field
  that starts as \<open>None\<close>.
\<close>

definition stripped_text :: "string \<Rightarrow> string option" where
  "stripped_text t = (if t \<noteq> [] \<and> strip t \<noteq> [] then Some (strip t) else None)"

text \<open>The test that makes a row a question row.\<close>

definition is_question_row :: "cell_value \<Rightarrow> bool" where
  "is_question_row no_value =
     (no_value \<noteq> CNone \<and>
      (isinstance_int no_value \<or>
       (case no_value of CStr s \<Rightarrow> isdigit s | _ \<Rightarrow> False)))"

text \<open>The top date of the sheet, row 3 column 5, when it is a date.\<close>

definition top_date :: "sheet \<Rightarrow> string option" where
  "top_date sh =
     (if truthy (cells sh 3 5) then
        (case cells sh 3 5 of CDate d \<Rightarrow> Some (dt_isoformat d) | _ \<Rightarrow> None)
      else None)"

definition start_row :: "template \<Rightarrow> nat" where
  "start_row tt = (if tt = Starteam then 10 else 9)"

text \<open>The columns \<open>(no_col, desc_col, sugg_col, resp_col)\<close>.\<close>

definition question_cols :: "template \<Rightarrow> nat \<times> nat \<times> nat \<times> nat" where
  "question_cols tt =
     (if tt = EQ then (1, 2, 3, 4)
      else if tt = Starteam then (1, 2, 3, 5)
      else (1, 2, 3, 4))"

text \<open>The body of the loop for a row that passed the test: builds the row's question.\<close>

definition question_of_row ::
  "env \<Rightarrow> sheet \<Rightarrow> image_map \<Rightarrow> nat \<times> nat \<times> nat \<times> nat \<Rightarrow> string option \<Rightarrow> nat \<Rightarrow> nat
     \<Rightarrow> question \<times> nat" where
  "question_of_row e sh cell_to_images cols created_at current_row w =
     (case cols of (no_col, desc_col, sugg_col, resp_col) \<Rightarrow>
      case get_cell_value_with_images sh current_row desc_col cell_to_images of
        (desc_text, desc_images) \<Rightarrow>
      case append_image_infos e desc_images [] w of (desc_infos, w1) \<Rightarrow>
      case get_cell_value_with_images sh current_row sugg_col cell_to_images of
        (sugg_text, sugg_images) \<Rightarrow>
      case append_image_infos e sugg_images [] w1 of (sugg_infos, w2) \<Rightarrow>
      case get_cell_value_with_images sh current_row resp_col cell_to_images of
        (resp_text, resp_images) \<Rightarrow>
      case append_image_infos e resp_images [] w2 of (resp_infos, w3) \<Rightarrow>
        (\<lparr>no = py_str (cells sh current_row no_col),
          description = stripped_text desc_text,
          suggestion = stripped_text sugg_text,
          customerResponse = stripped_text resp_text,
          descriptionImages = desc_infos,
          suggestionImages = sugg_infos,
          customerResponseImages = resp_infos,
          createdAt = created_at\<rparr>, w3))"

text \<open>The \<open>while current_row <= sheet.max_row\<close> loop.\<close>

function questions_loop ::
  "env \<Rightarrow> sheet \<Rightarrow> image_map \<Rightarrow> nat \<times> nat \<times> nat \<times> nat \<Rightarrow> string option \<Rightarrow> nat
     \<Rightarrow> question list \<Rightarrow> nat \<Rightarrow> question list \<times> nat" where
  "questions_loop e sh cell_to_images cols created_at current_row questions w =
     (if current_row \<le> max_row sh then
        (if is_question_row (cells sh current_row (fst cols)) then
           (case question_of_row e sh cell_to_images cols created_at current_row w of
              (q, w') \<Rightarrow>
                questions_loop e sh cell_to_images cols created_at (Suc current_row)
                  (questions @ [q]) w')
         else
           questions_loop e sh cell_to_images cols created_at (Suc current_row) questions w)
      else (questions, w))"
  by pat_completeness auto
termination
  by (relation "measure (\<lambda>(e, sh, m, cols, created, r, qs, w). Suc (max_row sh) - r)") auto

declare questions_loop.simps [simp del]

text \<open>
  \<open>extract_questions\<close>; \<open>workbook[workbook.sheetnames[0]]\<close> raises \<open>IndexError\<close> on a
  workbook without sheets.
\<close>

definition extract_questions ::
  "env \<Rightarrow> workbook \<Rightarrow> template \<Rightarrow> image_map \<Rightarrow> nat \<Rightarrow> error + (question list \<times> nat)" where
  "extract_questions e wb template_type cell_to_images w =
     (case wb of
        [] \<Rightarrow> Inl IndexError
      | sh # _ \<Rightarrow>
          Inr (questions_loop e sh cell_to_images (question_cols template_type) (top_date sh)
                 (start_row template_type + 1) [] w))"

subsection \<open>Predicates of the specification for the question table\<close>

text \<open>The rows the loop visits: from \<open>start_row + 1\<close> to the sheet's last row.\<close>

definition scanned_rows :: "template \<Rightarrow> sheet \<Rightarrow> nat list" where
  "scanned_rows tt sh = [start_row tt + 1 ..< Suc (max_row sh)]"

text \<open>
  The number cell holds a Python \<open>int\<close> (an integer or, as a subclass, a boolean) or a
  string composed only of digits.
\<close>

definition number_cell :: "cell_value \<Rightarrow> bool" where
  "number_cell v =
     (case v of CInt i \<Rightarrow> True | CBool b \<Rightarrow> True | CStr s \<Rightarrow> isdigit s | _ \<Rightarrow> False)"






text \<open>
  An optional text field is absent, or a string that is not empty, equals its own
  \<open>strip()\<close> and is not made of whitespace only.
\<close>

definition clean_text :: "string option \<Rightarrow> bool" where
  "clean_text t =
     (case t of None \<Rightarrow> True
      | Some s \<Rightarrow> s \<noteq> [] \<and> strip s = s \<and> \<not> list_all py_isspace s)"

section \<open>Metadata\<close>

record metadata =
  customerName :: string
  engineerName :: "string option"
  customerPN :: "string list"
  factoryPN :: "string list"
  stgPN :: "string list"
  baseMaterial :: "string option"
  solderMask :: "string option"
  viaPluggingType :: "string option"
  panelSize :: "string option"
  status :: "string option"
  stgSignatureDate :: "string option"
  stgSignatures :: "string list"
  customerSignatureDate :: "string option"
  customerSignatures :: "string list"
  top_createdAt :: "string option"

text \<open>The dictionary \<open>metadata\<close> as first assigned (\<open>top_createdAt\<close> is its key \<open>createdAt\<close>).\<close>

definition initial_metadata :: metadata where
  "initial_metadata =
     \<lparr>customerName = [], engineerName = None, customerPN = [], factoryPN = [], stgPN = [],
      baseMaterial = None, solderMask = None, viaPluggingType = None, panelSize = None,
      status = None, stgSignatureDate = None, stgSignatures = [],
      customerSignatureDate = None, customerSignatures = [], top_createdAt = None\<rparr>"

text \<open>\<open>[pn.strip() for pn in pn_value.split('\n') if pn.strip()]\<close>.\<close>

definition split_pn :: "string \<Rightarrow> string list" where
  "split_pn pn_value =
     map strip (filter (\<lambda>pn. strip pn \<noteq> []) (split_on newline pn_value))"

text \<open>The reads that every template shares (rows 1, 2, 3 and 7).\<close>

definition common_metadata :: "sheet \<Rightarrow> metadata" where
  "common_metadata sh =
     (let md = initial_metadata;
          md = (if truthy (cells sh 1 3) then md\<lparr>customerName := py_str (cells sh 1 3)\<rparr>
                else md);
          md = (if truthy (cells sh 1 5) then md\<lparr>engineerName := Some (py_str (cells sh 1 5))\<rparr>
                else md);
          md = (if truthy (cells sh 2 3) then md\<lparr>customerPN := split_pn (py_str (cells sh 2 3))\<rparr>
                else md);
          md = (if truthy (cells sh 2 5) then md\<lparr>factoryPN := split_pn (py_str (cells sh 2 5))\<rparr>
                else md);
          md = (if truthy (cells sh 3 3) then md\<lparr>stgPN := split_pn (py_str (cells sh 3 3))\<rparr>
                else md);
          md = (if truthy (cells sh 3 5) then
                  (case cells sh 3 5 of
                     CDate d \<Rightarrow> md\<lparr>top_createdAt := Some (dt_isoformat d)\<rparr>
                   | _ \<Rightarrow> md)
                else md);
          md = (if truthy (cells sh 7 3) then md\<lparr>baseMaterial := Some (py_str (cells sh 7 3))\<rparr>
                else md);
          md = (if truthy (cells sh 7 5) then md\<lparr>solderMask := Some (py_str (cells sh 7 5))\<rparr>
                else md)
      in md)"

subsection \<open>Dates in signature cells\<close>

text \<open>
  \<open>datetime.strptime(s, "%d.%m.%Y")\<close>, after the library's documentation: the whole
  string is a day (\<open>1\<close> to \<open>31\<close>, one or two digits, a leading zero or space allowed), a
  dot, a month (\<open>1\<close> to \<open>12\<close>, one or two digits), a dot and a year of exactly four
  digits; the date must exist in the calendar (years \<open>1\<close> to \<open>9999\<close>).  The result is
  (year, month, day), or \<open>None\<close> where the library raises \<open>ValueError\<close>.
\<close>

definition digit_value :: "char \<Rightarrow> nat" where
  "digit_value c = of_char c - 48"

definition is_ascii_digit :: "char \<Rightarrow> bool" where
  "is_ascii_digit c = (c \<in> set ''0123456789'')"

definition day_token :: "string \<Rightarrow> nat option" where
  "day_token s =
     (case s of
        [a] \<Rightarrow> if a \<in> set ''123456789'' then Some (digit_value a) else None
      | [a, b] \<Rightarrow>
          if (a = CHR ''3'' \<and> b \<in> set ''01'') \<or> (a \<in> set ''12'' \<and> is_ascii_digit b) \<or>
             (a = CHR ''0'' \<and> b \<in> set ''123456789'')
          then Some (10 * digit_value a + digit_value b)
          else if a = CHR '' '' \<and> b \<in> set ''123456789'' then Some (digit_value b)
          else None
      | _ \<Rightarrow> None)"

definition month_token :: "string \<Rightarrow> nat option" where
  "month_token s =
     (case s of
        [a] \<Rightarrow> if a \<in> set ''123456789'' then Some (digit_value a) else None
      | [a, b] \<Rightarrow>
          if (a = CHR ''1'' \<and> b \<in> set ''012'') \<or> (a = CHR ''0'' \<and> b \<in> set ''123456789'')
          then Some (10 * digit_value a + digit_value b)
          else None
      | _ \<Rightarrow> None)"

definition year_token :: "string \<Rightarrow> nat option" where
  "year_token s =
     (case s of
        [a, b, c, d] \<Rightarrow>
          if list_all is_ascii_digit [a, b, c, d]
          then Some (1000 * digit_value a + 100 * digit_value b + 10 * digit_value c
                     + digit_value d)
          else None
      | _ \<Rightarrow> None)"

definition is_leap :: "nat \<Rightarrow> bool" where
  "is_leap y = (y mod 4 = 0 \<and> (y mod 100 \<noteq> 0 \<or> y mod 400 = 0))"

definition days_in_month :: "nat \<Rightarrow> nat \<Rightarrow> nat" where
  "days_in_month y m =
     (if m = 2 then (if is_leap y then 29 else 28)
      else if m \<in> set [4, 6, 9, 11] then 30 else 31)"

definition strptime_dmY :: "string \<Rightarrow> (nat \<times> nat \<times> nat) option" where
  "strptime_dmY s =
     (case split_on CHR ''.'' s of
        [ds, ms, ys] \<Rightarrow>
          (case (day_token ds, month_token ms, year_token ys) of
             (Some d, Some m, Some y) \<Rightarrow>
               if 1 \<le> y \<and> d \<le> days_in_month y m then Some (y, m, d) else None
           | _ \<Rightarrow> None)
      | _ \<Rightarrow> None)"

text \<open>\<open>str(n).zfill(width)\<close> for a natural number.\<close>

definition zfill :: "nat \<Rightarrow> nat \<Rightarrow> string" where
  "zfill width n = replicate (width - length (str_nat n)) CHR ''0'' @ str_nat n"

text \<open>\<open>isoformat()\<close> of the \<open>datetime\<close> that \<open>strptime\<close> returns: midnight of the date.\<close>

definition date_isoformat :: "nat \<times> nat \<times> nat \<Rightarrow> string" where
  "date_isoformat ymd =
     (case ymd of (y, m, d) \<Rightarrow>
        zfill 4 y @ ''-'' @ zfill 2 m @ ''-'' @ zfill 2 d @ ''T00:00:00'')"

text \<open>
  What a signature cell of the extended template contributes: the date to store (\<open>None\<close>
  when the date field is not assigned) and the new signature list.  The \<open>except\<close> branch
  is the \<open>None\<close> of \<open>strptime_dmY\<close>.
\<close>

definition signature_payload :: "string \<Rightarrow> string option \<times> string list" where
  "signature_payload signature_text =
     (let lines = split_on newline signature_text in
      if length lines \<ge> 2 then
        (case strptime_dmY (strip (lines ! 0)) of
           Some parsed_date \<Rightarrow>
             (Some (date_isoformat parsed_date), [strip (join_with [newline] (tl lines))])
         | None \<Rightarrow> (None, [signature_text]))
      else (None, [signature_text]))"

definition set_stg_signature :: "string \<Rightarrow> metadata \<Rightarrow> metadata" where
  "set_stg_signature stg_signature_text md =
     (case signature_payload stg_signature_text of
        (Some d, sigs) \<Rightarrow> md\<lparr>stgSignatureDate := Some d, stgSignatures := sigs\<rparr>
      | (None, sigs) \<Rightarrow> md\<lparr>stgSignatures := sigs\<rparr>)"

definition set_customer_signature :: "string \<Rightarrow> metadata \<Rightarrow> metadata" where
  "set_customer_signature customer_signature_text md =
     (case signature_payload customer_signature_text of
        (Some d, sigs) \<Rightarrow> md\<lparr>customerSignatureDate := Some d, customerSignatures := sigs\<rparr>
      | (None, sigs) \<Rightarrow> md\<lparr>customerSignatures := sigs\<rparr>)"

subsection \<open>The signature scans\<close>

text \<open>
  A \<open>for row in range(...)\<close> loop whose body may raise.  \<open>sheet.cell(row=r, column=c)\<close>
  raises \<open>ValueError\<close> when \<open>r < 1\<close>; the bodies below make that test where the row
  can be less than one.
\<close>

fun for_rows :: "(int \<Rightarrow> 'a \<Rightarrow> error + 'a) \<Rightarrow> int list \<Rightarrow> 'a \<Rightarrow> error + 'a" where
  "for_rows body [] s = Inr s"
| "for_rows body (r # rs) s =
     (case body r s of Inl err \<Rightarrow> Inl err | Inr s' \<Rightarrow> for_rows body rs s')"

text \<open>\<open>"Date" in str(v)\<close> guarded by the truth of \<open>v\<close>.\<close>

definition labelled :: "string \<Rightarrow> cell_value \<Rightarrow> bool" where
  "labelled word v = (truthy v \<and> py_in word (py_str v))"

definition cea_row :: "sheet \<Rightarrow> int \<Rightarrow> metadata \<Rightarrow> error + metadata" where
  "cea_row sh row md =
     (if row < 1 then Inl ValueError
      else
        (let r = nat row;
             md = (if labelled ''Date'' (cells sh r 1) then
                     (if truthy (cells sh (r + 1) 1) then
                        (case cells sh (r + 1) 1 of
                           CDate d \<Rightarrow> md\<lparr>customerSignatureDate := Some (dt_isoformat d)\<rparr>
                         | _ \<Rightarrow> md)
                      else md)
                   else md);
             md = (if labelled ''Signature'' (cells sh r 4) then
                     (if truthy (cells sh (r + 1) 4) then
                        md\<lparr>customerSignatures := [py_str (cells sh (r + 1) 4)]\<rparr>
                      else md)
                   else md)
         in Inr md))"

definition eq_row :: "sheet \<Rightarrow> int \<Rightarrow> metadata \<Rightarrow> error + metadata" where
  "eq_row sh row md =
     (if row < 1 then Inl ValueError
      else
        (let r = nat row in
         if truthy (cells sh r 1) \<and>
            (py_in ''Date'' (py_str (cells sh r 1)) \<or> py_in ''Signature'' (py_str (cells sh r 1)))
         then
           (let md = (if truthy (cells sh (r + 1) 1) then
                        (case cells sh (r + 1) 1 of
                           CDate d \<Rightarrow> md\<lparr>customerSignatureDate := Some (dt_isoformat d)\<rparr>
                         | _ \<Rightarrow> md)
                      else md);
                md = (if truthy (cells sh (r + 1) 4) then
                        md\<lparr>customerSignatures := [py_str (cells sh (r + 1) 4)]\<rparr>
                      else md)
            in Inr md)
         else Inr md))"

definition starteam_row :: "sheet \<Rightarrow> int \<Rightarrow> metadata \<Rightarrow> error + metadata" where
  "starteam_row sh row md =
     (if row < 1 then Inl ValueError
      else
        (let r = nat row in
         if labelled ''Signature'' (cells sh r 4) then
           (let md = (if truthy (cells sh (r + 1) 4)
                      then set_stg_signature (py_str (cells sh (r + 1) 4)) md else md);
                md = (if truthy (cells sh (r + 1) 5)
                      then set_customer_signature (py_str (cells sh (r + 1) 5)) md else md)
            in Inr md)
         else Inr md))"

text \<open>\<open>range(a, b)\<close> on integers.\<close>

definition py_range :: "int \<Rightarrow> int \<Rightarrow> int list" where
  "py_range a b = [a .. b - 1]"

definition extract_metadata :: "workbook \<Rightarrow> template \<Rightarrow> error + metadata" where
  "extract_metadata wb template_type =
     (case wb of
        [] \<Rightarrow> Inl IndexError
      | sh # _ \<Rightarrow>
          (let md = common_metadata sh in
           case template_type of
             CEA \<Rightarrow>
               for_rows (cea_row sh) (py_range 15 (min 25 (int (max_row sh) + 1))) md
           | EQ \<Rightarrow>
               for_rows (eq_row sh) (py_range (int (max_row sh) - 10) (int (max_row sh))) md
           | Starteam \<Rightarrow>
               (let md = (if truthy (cells sh 8 3)
                          then md\<lparr>viaPluggingType := Some (py_str (cells sh 8 3))\<rparr> else md);
                    md = (if truthy (cells sh 8 5)
                          then md\<lparr>panelSize := Some (py_str (cells sh 8 5))\<rparr> else md)
                in for_rows (starteam_row sh)
                     (py_range (int (max_row sh) - 10) (int (max_row sh))) md)))"

subsection \<open>The part-number list the specification describes\<close>

text \<open>
  The list read from a part-number cell: its text split at newlines, when the cell holds
  a value that is true; otherwise the empty list the field starts with.
\<close>

definition pn_list :: "cell_value \<Rightarrow> string list" where
  "pn_list v = (if truthy v then split_pn (py_str v) else [])"


section \<open>The template classifier\<close>

text \<open>
  The text of one sampled row: \<open>str()\<close> of the true cell values of the sampled columns,
  joined by blanks.
\<close>

definition sample_row :: "sheet \<Rightarrow> nat \<Rightarrow> string" where
  "sample_row sh r =
     (let row_data = map py_str (filter truthy
                        (map (cells sh r) [1 ..< min 15 (max_column sh + 1)]))
      in join_with '' '' (filter (\<lambda>x. x \<noteq> []) row_data))"

definition sample_text :: "sheet \<Rightarrow> string" where
  "sample_text sh = join_with '' '' (map (sample_row sh) [1 ..< min 20 (max_row sh + 1)])"

text \<open>The two checks on the sheet's name and width, made when no keyword decides.\<close>

definition structure_check :: "sheet \<Rightarrow> template option" where
  "structure_check sh =
     (if title sh = ''CEA'' \<and> max_column sh \<le> 6 then Some CEA
      else if title sh = ''EQ Template'' then
        (if max_column sh \<ge> 10 then Some Starteam else Some EQ)
      else None)"

text \<open>The questionnaire keywords, then the checks on structure.\<close>

definition questionnaire_check :: "sheet \<Rightarrow> template option" where
  "questionnaire_check sh =
     (if py_in ''Engineering Questionnaire'' (sample_text sh) \<or> py_in ''EQ'' (sample_text sh)
      then
        (if py_in ''STG Proposal'' (sample_text sh) \<and> py_in ''Customer Decision'' (sample_text sh)
         then Some Starteam else Some EQ)
      else structure_check sh)"

definition identify_template_type :: "workbook \<Rightarrow> error + template option" where
  "identify_template_type wb =
     (case wb of
        [] \<Rightarrow> Inl IndexError
      | sh # _ \<Rightarrow>
          Inr (if py_in ''CEA'' (sample_text sh) \<and>
                  py_in ''Customer Engineering Approval'' (sample_text sh)
               then (if title sh = ''CEA'' then Some CEA else questionnaire_check sh)
               else questionnaire_check sh))"

section \<open>The canonical document\<close>

text \<open>\<open>x or datetime.now().isoformat()\<close>: the clock is read only when \<open>x\<close> is not true.\<close>

definition or_now :: "env \<Rightarrow> string option \<Rightarrow> nat \<Rightarrow> string \<times> nat" where
  "or_now e x w =
     (case x of
        Some s \<Rightarrow> if s \<noteq> [] then (s, w) else datetime_now e w
      | None \<Rightarrow> datetime_now e w)"

text \<open>The loop of \<open>map_to_schema\<close> over the questions.\<close>

fun map_questions :: "env \<Rightarrow> question list \<Rightarrow> eq_question list \<Rightarrow> nat \<Rightarrow> eq_question list \<times> nat" where
  "map_questions e [] acc w = (acc, w)"
| "map_questions e (q # qs) acc w =
     (case generate_uuid e w of (qid, w1) \<Rightarrow>
      case or_now e (createdAt q) w1 of (created, w2) \<Rightarrow>
        map_questions e qs
          (acc @ [\<lparr>q_id = qid, q_createdAt = created, q_no = no q,
                   q_description = description q, q_suggestion = suggestion q,
                   q_customerResponse = customerResponse q,
                   q_descriptionImages = descriptionImages q,
                   q_suggestionImages = suggestionImages q,
                   q_customerResponseImages = customerResponseImages q\<rparr>]) w2)"

definition map_to_schema :: "env \<Rightarrow> metadata \<Rightarrow> question list \<Rightarrow> string \<Rightarrow> nat \<Rightarrow> eq \<times> nat" where
  "map_to_schema e md questions file_name w =
     (case generate_uuid e w of (file_id, w1) \<Rightarrow>
      case datetime_now e w1 of (file_created, w2) \<Rightarrow>
      case generate_uuid e w2 of (file_key, w3) \<Rightarrow>
      case generate_uuid e w3 of (doc_id, w4) \<Rightarrow>
      case or_now e (top_createdAt md) w4 of (doc_created, w5) \<Rightarrow>
      case map_questions e questions [] w5 of (qs, w6) \<Rightarrow>
        (\<lparr>eq_id = doc_id, eq_createdAt = doc_created,
          eq_customerName = customerName md, eq_engineerName = engineerName md,
          eq_customerPN = customerPN md, eq_factoryPN = factoryPN md, eq_stgPN = stgPN md,
          eq_baseMaterial = baseMaterial md, eq_solderMask = solderMask md,
          eq_viaPluggingType = viaPluggingType md, eq_panelSize = panelSize md,
          eq_status = ''Closed'',
          eq_stgSignatureDate = stgSignatureDate md, eq_stgSignatures = stgSignatures md,
          eq_customerSignatureDate = customerSignatureDate md,
          eq_customerSignatures = customerSignatures md,
          eq_fileName = file_name,
          eq_originalFile =
            \<lparr>img_id = file_id, img_createdAt = file_created, img_name = file_name,
             img_type = ''application/vnd.openxmlformats-officedocument.spreadsheetml.sheet'',
             img_key = file_key, img_uploadUrl = file_name\<rparr>,
          eq_questions = qs\<rparr>, w6))"

section \<open>The validator\<close>

definition missing_no_message :: "nat \<Rightarrow> string" where
  "missing_no_message i = ''Question '' @ str_nat (i + 1) @ '' missing required field: no''"

text \<open>The loop \<open>for i, question in enumerate(questions)\<close>, from index \<open>i\<close>.\<close>

fun check_questions :: "nat \<Rightarrow> eq_question list \<Rightarrow> string list \<Rightarrow> string list" where
  "check_questions i [] errors = errors"
| "check_questions i (question # rest) errors =
     check_questions (Suc i) rest
       (if q_no question = [] then errors @ [missing_no_message i] else errors)"

definition validate_extracted_data :: "eq \<Rightarrow> bool \<times> string list" where
  "validate_extracted_data eq_data =
     (let errors = [];
          errors = (if eq_customerName eq_data = []
                    then errors @ [''Missing required field: customerName''] else errors);
          errors = (if eq_fileName eq_data = []
                    then errors @ [''Missing required field: fileName''] else errors);
          errors = check_questions 0 (eq_questions eq_data) errors
      in (length errors = 0, errors))"

subsection \<open>The violated rules the specification lists\<close>

text \<open>
  In order: the customer name, the file name, then every question with an empty \<open>no\<close>,
  named by its position counted from one.
\<close>

definition violated_rules :: "eq \<Rightarrow> string list" where
  "violated_rules d =
     (if eq_customerName d = [] then [''Missing required field: customerName''] else []) @
     (if eq_fileName d = [] then [''Missing required field: fileName''] else []) @
     map (\<lambda>(i, q). missing_no_message i)
       (filter (\<lambda>(i, q). q_no q = []) (enumerate 0 (eq_questions d)))"

section \<open>Files\<close>

text \<open>
  The file system: the bytes of every file by path, and the directories created.  Writes
  and copies are taken to succeed when their source exists; a missing parent directory,
  permissions and a full disk are outside the model.
\<close>

record filesystem =
  files :: "string \<rightharpoonup> string"
  dirs :: "string set"

definition write_file :: "string \<Rightarrow> string \<Rightarrow> filesystem \<Rightarrow> filesystem" where
  "write_file path content fs = fs\<lparr>files := (files fs)(path \<mapsto> content)\<rparr>"

text \<open>\<open>os.makedirs(path, exist_ok=True)\<close>.\<close>

definition makedirs :: "string \<Rightarrow> filesystem \<Rightarrow> filesystem" where
  "makedirs path fs = fs\<lparr>dirs := insert path (dirs fs)\<rparr>"

text \<open>\<open>shutil.copy2(src, dst)\<close>: raises when the source does not exist.\<close>

definition copy2 :: "string \<Rightarrow> string \<Rightarrow> filesystem \<Rightarrow> error + filesystem" where
  "copy2 src dst fs =
     (case files fs src of
        None \<Rightarrow> Inl FileNotFoundError
      | Some content \<Rightarrow> Inr (write_file dst content fs))"

text \<open>\<open>basename(p)\<close> on POSIX: what follows the last slash.\<close>

definition basename :: "string \<Rightarrow> string" where
  "basename p = rev (takeWhile (\<lambda>c. c \<noteq> CHR ''/'') (rev p))"

text \<open>
  \<open>os.path.splitext(name)[0]\<close> for a name without a slash: the name up to its last dot,
  or the whole name when it has no dot or only dots before the last one.
\<close>

definition splitext_root :: "string \<Rightarrow> string" where
  "splitext_root name =
     (if CHR ''.'' \<notin> set name then name
      else
        (let dot_index = length name - length (takeWhile (\<lambda>c. c \<noteq> CHR ''.'') (rev name)) - 1
         in if list_all (\<lambda>c. c = CHR ''.'') (take dot_index name) then name
            else take dot_index name))"

section \<open>The image extractor\<close>

definition image_name :: "nat \<Rightarrow> string" where
  "image_name image_counter = ''image_'' @ str_nat image_counter @ ''.png''"

text \<open>The variables of \<open>extract_images\<close> that its loops change.\<close>

record image_state =
  found :: image_map
  image_counter :: nat
  disk :: filesystem

text \<open>
  The body of the inner loop for one drawing.  A drawing without an anchor is passed
  over; for the others the counter advances in the \<open>try\<close> branch and in the \<open>except\<close>
  branch alike.
\<close>

definition save_drawing :: "string \<Rightarrow> drawing \<Rightarrow> image_state \<Rightarrow> image_state" where
  "save_drawing images_dir img st =
     (case anchor_from img of
        None \<Rightarrow> st
      | Some (col, row0) \<Rightarrow>
          (let row = row0 + 1;
               col_letter = ord_A + col;
               coord = cell_coord col_letter row;
               image_filename = image_name (image_counter st);
               image_path = os_path_join images_dir image_filename
           in case png img of
                Some png_bytes \<Rightarrow>
                  st\<lparr>disk := write_file image_path png_bytes (disk st),
                     found := (found st)(coord \<mapsto> images_get (found st) coord @ [image_filename]),
                     image_counter := image_counter st + 1\<rparr>
              | None \<Rightarrow> st\<lparr>image_counter := image_counter st + 1\<rparr>))"

definition extract_images ::
  "workbook \<Rightarrow> string \<Rightarrow> template \<Rightarrow> filesystem \<Rightarrow> image_map \<times> filesystem" where
  "extract_images wb output_dir template_type fs =
     (let images_dir = os_path_join output_dir ''images'';
          st = \<lparr>found = Map.empty, image_counter = 1, disk = makedirs images_dir fs\<rparr>;
          st = fold (\<lambda>sh. fold (save_drawing images_dir) (images sh)) wb st
      in (found st, disk st))"

subsection \<open>The specification's view of the image map\<close>

text \<open>The drawings with an anchor, over all sheets, in the order the loops meet them.\<close>

definition anchored_drawings :: "workbook \<Rightarrow> drawing list" where
  "anchored_drawings wb = filter (\<lambda>d. anchor_from d \<noteq> None) (concat (map images wb))"

text \<open>The key under which a drawing is filed: the coordinate of its anchor's cell.\<close>

definition anchor_key :: "drawing \<Rightarrow> coord option" where
  "anchor_key d =
     (case anchor_from d of
        None \<Rightarrow> None
      | Some (col, row0) \<Rightarrow> Some (cell_coord (ord_A + col) (row0 + 1)))"

text \<open>
  Number the anchored drawings of the workbook 1, 2, 3, ... in that order.  These are the
  numbers of the drawings that decode and are anchored at the coordinate \<open>k\<close>.
\<close>

definition numbers_at :: "workbook \<Rightarrow> coord \<Rightarrow> nat list" where
  "numbers_at wb k =
     map fst (filter (\<lambda>(n, d). png d \<noteq> None \<and> anchor_key d = Some k)
                (enumerate 1 (anchored_drawings wb)))"




section \<open>The outlier handler and the driver of one file\<close>

definition outlier_note :: "string \<Rightarrow> string \<Rightarrow> string \<Rightarrow> string" where
  "outlier_note file_name file_path now =
     ''Outlier File: '' @ file_name @ [newline] @
     ''Original Path: '' @ file_path @ [newline] @
     ''Processed Date: '' @ now @ [newline] @
     ''Reason: Does not match any of the 3 supported templates (CEA, EQ, starteam)'' @
     [newline]"

text \<open>\<open>handle_outlier_file\<close>: a copy that raises is caught, and the result is \<open>False\<close>.\<close>

definition handle_outlier_file ::
  "env \<Rightarrow> string \<Rightarrow> string \<Rightarrow> nat \<Rightarrow> filesystem \<Rightarrow> bool \<times> nat \<times> filesystem" where
  "handle_outlier_file e file_path outlier_dir w fs =
     (let file_name = basename file_path;
          outlier_file_path = os_path_join outlier_dir file_name
      in case copy2 file_path outlier_file_path fs of
           Inl err \<Rightarrow> (False, w, fs)
         | Inr fs1 \<Rightarrow>
             (let info_file_path =
                    os_path_join outlier_dir (splitext_root file_name @ ''_info.txt'')
              in case datetime_now e w of (now, w1) \<Rightarrow>
                   (True, w1,
                    write_file info_file_path (outlier_note file_name file_path now) fs1)))"

text \<open>
  The directory of a document's output: the output directory joined with the file's base
  name up to its first dot.
\<close>

definition document_dir :: "string \<Rightarrow> string \<Rightarrow> string" where
  "document_dir output_dir file_path =
     os_path_join output_dir (hd (split_on CHR ''.'' (basename file_path)))"

text \<open>\<open>load_workbook(file_path, data_only=True)\<close>.\<close>

definition load_workbook :: "env \<Rightarrow> string \<Rightarrow> filesystem \<Rightarrow> error + workbook" where
  "load_workbook e file_path fs =
     (case files fs file_path of
        None \<Rightarrow> Inl FileNotFoundError
      | Some bytes \<Rightarrow> parse_workbook e bytes)"

text \<open>
  \<open>process_excel_file\<close>.  Every exception inside it is caught by its outer \<open>except\<close>,
  which returns \<open>(False, False)\<close> and leaves what was written before.
\<close>

definition process_excel_file ::
  "env \<Rightarrow> string \<Rightarrow> string \<Rightarrow> string \<Rightarrow> nat \<Rightarrow> filesystem
     \<Rightarrow> (bool \<times> bool) \<times> nat \<times> filesystem" where
  "process_excel_file e file_path output_dir outlier_dir w fs =
     (let file_name = basename file_path in
      case load_workbook e file_path fs of
        Inl err \<Rightarrow> ((False, False), w, fs)
      | Inr wb \<Rightarrow>
     (case identify_template_type wb of
        Inl err \<Rightarrow> ((False, False), w, fs)
      | Inr None \<Rightarrow>
          (case handle_outlier_file e file_path outlier_dir w fs of
             (success, w1, fs1) \<Rightarrow> ((success, True), w1, fs1))
      | Inr (Some template_type) \<Rightarrow>
     (let file_output_dir =
            os_path_join output_dir (hd (split_on CHR ''.'' (basename file_path)));
          fs1 = makedirs (os_path_join file_output_dir ''images'') fs
      in case extract_metadata wb template_type of
        Inl err \<Rightarrow> ((False, False), w, fs1)
      | Inr md \<Rightarrow>
     (case extract_images wb file_output_dir template_type fs1 of
        (cell_to_images, fs2) \<Rightarrow>
     (case extract_questions e wb template_type cell_to_images w of
        Inl err \<Rightarrow> ((False, False), w, fs2)
      | Inr (questions, w1) \<Rightarrow>
     (case map_to_schema e md questions file_name w1 of
        (eq_data, w2) \<Rightarrow>
     (case validate_extracted_data eq_data of
        (is_valid, errors) \<Rightarrow>
          if \<not> is_valid then ((False, False), w2, fs2)
          else
            (let fs3 = write_file (os_path_join file_output_dir ''index.json'')
                         (json_dumps e eq_data) fs2;
                 fs4 = (case copy2 file_path (os_path_join file_output_dir ''index.xlsx'') fs3 of
                          Inl err \<Rightarrow> fs3
                        | Inr fs' \<Rightarrow> fs')
             in ((True, False), w2, fs4)))))))))"

section \<open>Example inputs\<close>

text \<open>Concrete environments and sheets on which the general results are instantiated.\<close>

definition grid_of :: "((nat \<times> nat) \<times> cell_value) list \<Rightarrow> nat \<Rightarrow> nat \<Rightarrow> cell_value" where
  "grid_of entries r c = (case map_of entries (r, c) of None \<Rightarrow> CNone | Some v \<Rightarrow> v)"

definition env0 :: env where
  "env0 =
     \<lparr>uuid4 = (\<lambda>n. ''uuid-'' @ str_nat n), now_isoformat = (\<lambda>n. ''now-'' @ str_nat n),
      parse_workbook = (\<lambda>bytes. Inl LoadError),
      json_dumps = (\<lambda>d. ''json of '' @ eq_fileName d)\<rparr>"


text \<open>
  A questionnaire table: header in row 10, questions in rows 11 and 13 (numbered by an
  integer and by a digit string), a separator row 12, a note in row 14.
\<close>

definition table_sheet :: sheet where
  "table_sheet =
     \<lparr>title = ''EQ Template'',
      cells = grid_of
        [((10, 1), CStr ''No.''), ((10, 2), CStr ''Description''),
         ((11, 1), CInt 1), ((11, 2), CStr ''  Hole too small ''), ((11, 3), CStr ''enlarge''),
         ((13, 1), CStr ''2''), ((13, 2), CStr ''   ''), ((13, 4), CStr ''OK''),
         ((14, 1), CStr ''Remarks'')],
      max_row = 14, max_column = 4, images = []\<rparr>"

text \<open>
  The head of an approval form: customer, engineer, a customer part-number cell of two
  lines with blanks around them, and a factory part number held as an integer.
\<close>

definition cea_sheet :: sheet where
  "cea_sheet =
     \<lparr>title = ''CEA'',
      cells = grid_of
        [((1, 3), CStr ''ACME GmbH''), ((1, 5), CStr ''J. Smith''),
         ((2, 3), CStr (''PN-100'' @ [newline] @ ''  PN-200 '' @ [newline, newline])),
         ((2, 5), CInt 4711)],
      max_row = 12, max_column = 5, images = []\<rparr>"


text \<open>
  A document with its required header fields and no optional field, whose second
  question has an empty \<open>no\<close>.
\<close>

definition bare_question :: "string \<Rightarrow> eq_question" where
  "bare_question n =
     \<lparr>q_id = ''q'', q_createdAt = ''2024-03-15T00:00:00'', q_no = n,
      q_description = None, q_suggestion = None, q_customerResponse = None,
      q_descriptionImages = [], q_suggestionImages = [], q_customerResponseImages = []\<rparr>"

definition bare_document :: "eq_question list \<Rightarrow> eq" where
  "bare_document qs =
     \<lparr>eq_id = ''d'', eq_createdAt = ''2024-03-15T00:00:00'', eq_customerName = ''ACME GmbH'',
      eq_engineerName = None, eq_customerPN = [], eq_factoryPN = [], eq_stgPN = [],
      eq_baseMaterial = None, eq_solderMask = None, eq_viaPluggingType = None,
      eq_panelSize = None, eq_status = ''Closed'', eq_stgSignatureDate = None,
      eq_stgSignatures = [], eq_customerSignatureDate = None, eq_customerSignatures = [],
      eq_fileName = ''form.xlsx'',
      eq_originalFile =
        \<lparr>img_id = ''f'', img_createdAt = ''2024-03-15T00:00:00'', img_name = ''form.xlsx'',
         img_type = ''application/vnd.openxmlformats-officedocument.spreadsheetml.sheet'',
         img_key = ''k'', img_uploadUrl = ''form.xlsx''\<rparr>,
      eq_questions = qs\<rparr>"

text \<open>
  An approval form with two questions (rows 10 and 11) and four drawings: one at B10, one
  without an anchor, one at C10 that does not decode, one at D11.  The cell of the
  customer name is a parameter.  A second sheet holds a drawing at its own B10.
\<close>

definition form_sheet :: "cell_value \<Rightarrow> sheet" where
  "form_sheet customer =
     \<lparr>title = ''CEA'',
      cells = grid_of
        [((1, 3), customer),
         ((10, 1), CInt 1), ((10, 2), CStr ''Gap too small''),
         ((11, 1), CInt 2), ((11, 4), CStr ''Accepted'')],
      max_row = 11, max_column = 5,
      images =
        [\<lparr>anchor_from = Some (1, 9), png = Some ''PNG-A''\<rparr>,
         \<lparr>anchor_from = None, png = Some ''PNG-B''\<rparr>,
         \<lparr>anchor_from = Some (2, 9), png = None\<rparr>,
         \<lparr>anchor_from = Some (3, 10), png = Some ''PNG-D''\<rparr>]\<rparr>"

definition notes_sheet :: sheet where
  "notes_sheet =
     \<lparr>title = ''Notes'', cells = grid_of [], max_row = 1, max_column = 1,
      images = [\<lparr>anchor_from = Some (1, 9), png = Some ''PNG-E''\<rparr>]\<rparr>"

definition form_workbook :: "cell_value \<Rightarrow> workbook" where
  "form_workbook customer = [form_sheet customer, notes_sheet]"

definition empty_disk :: filesystem where
  "empty_disk = \<lparr>files = Map.empty, dirs = {}\<rparr>"



text \<open>
  An environment whose parser knows three files, and a disk that holds them: the form
  with and without a customer name, and a workbook of an unknown layout.
\<close>

definition env1 :: env where
  "env1 =
     env0\<lparr>parse_workbook :=
       (\<lambda>bytes.
          if bytes = ''form-with-customer'' then Inr (form_workbook (CStr ''ACME GmbH''))
          else if bytes = ''form-without-customer'' then Inr (form_workbook CNone)
          else if bytes = ''unknown-layout'' then Inr [notes_sheet]
          else Inl LoadError)\<rparr>"

definition disk1 :: filesystem where
  "disk1 =
     \<lparr>files = [''in/good.xlsx'' \<mapsto> ''form-with-customer'',
               ''in/form.xlsx'' \<mapsto> ''form-without-customer'',
               ''in/notes.v2.xlsx'' \<mapsto> ''unknown-layout''],
      dirs = {''in'', ''out'', ''outliers''}\<rparr>"

section \<open>Properties of the string functions\<close>





lemma rstrip_idem: "rstrip (rstrip s) = rstrip s"
  by (simp add: rstrip_def)

lemma rstrip_prefix: "prefix (rstrip s) s"
proof -
  have "rev s = takeWhile py_isspace (rev s) @ dropWhile py_isspace (rev s)" by simp
  then have "s = rev (dropWhile py_isspace (rev s)) @ rev (takeWhile py_isspace (rev s))"
    by (metis rev_append rev_rev_ident)
  then show ?thesis unfolding rstrip_def by (metis prefixI)
qed

lemma hd_lstrip: "lstrip s \<noteq> [] \<Longrightarrow> \<not> py_isspace (hd (lstrip s))"
  unfolding lstrip_def by (rule hd_dropWhile)

lemma last_rstrip: "rstrip s \<noteq> [] \<Longrightarrow> \<not> py_isspace (last (rstrip s))"
  unfolding rstrip_def by (simp add: last_rev hd_dropWhile)

lemma hd_strip: assumes "strip s \<noteq> []" shows "\<not> py_isspace (hd (strip s))"
proof -
  have p: "prefix (strip s) (lstrip s)" unfolding strip_def by (rule rstrip_prefix)
  with assms have ne: "lstrip s \<noteq> []" by auto
  from p assms have "hd (strip s) = hd (lstrip s)" by (auto simp: prefix_def)
  with hd_lstrip[OF ne] show ?thesis by simp
qed

lemma last_strip: "strip s \<noteq> [] \<Longrightarrow> \<not> py_isspace (last (strip s))"
  unfolding strip_def by (rule last_rstrip)

lemma lstrip_id: "s = [] \<or> \<not> py_isspace (hd s) \<Longrightarrow> lstrip s = s"
  unfolding lstrip_def by (cases s) auto

lemma strip_idem: "strip (strip s) = strip s"
proof (cases "strip s = []")
  case True
  have "strip [] = []" by (simp add: strip_def lstrip_def rstrip_def)
  with True show ?thesis by simp
next
  case False
  then have "lstrip (strip s) = strip s" by (intro lstrip_id) (simp add: hd_strip)
  then have "strip (strip s) = rstrip (strip s)" by (simp add: strip_def)
  also have "\<dots> = strip s" by (simp add: strip_def rstrip_idem)
  finally show ?thesis .
qed

lemma strip_nonspace: "strip s \<noteq> [] \<Longrightarrow> \<not> list_all py_isspace (strip s)"
  using hd_strip[of s] by (cases "strip s") auto

section \<open>Properties of the question table\<close>



lemma questions_loop_map:
  assumes "\<And>r w. f (fst (question_of_row e sh m cols created r w)) = g r"
  shows "map f (fst (questions_loop e sh m cols created row qs w)) =
         map f qs @ map g (filter (\<lambda>r. is_question_row (cells sh r (fst cols))) [row ..< Suc (max_row sh)])"
  using assms
proof (induction e sh m cols created row qs w rule: questions_loop.induct)
  case (1 e sh m cols created row qs w)
  note fg = "1.prems"
  show ?case
  proof (cases "row \<le> max_row sh")
    case False
    then show ?thesis by (subst questions_loop.simps) simp
  next
    case True
    then have upt: "[row ..< Suc (max_row sh)] = row # [Suc row ..< Suc (max_row sh)]"
      by (simp add: upt_conv_Cons)
    show ?thesis
    proof (cases "is_question_row (cells sh row (fst cols))")
      case q: True
      obtain q' w' where qr: "question_of_row e sh m cols created row w = (q', w')"
        by (cases "question_of_row e sh m cols created row w")
      have "f q' = g row" using fg[of row w] by (simp add: qr)
      with "1.IH"(1)[OF True q qr[symmetric] fg] True q qr upt show ?thesis
        by (subst questions_loop.simps) simp
    next
      case q: False
      with "1.IH"(2)[OF True q fg] True upt show ?thesis
        by (subst questions_loop.simps) simp
    qed
  qed
qed

lemma fst_question_cols: "fst (question_cols tt) = 1"
  by (simp add: question_cols_def)

lemma is_question_row_iff: "is_question_row v = number_cell v"
  by (cases v) (simp_all add: is_question_row_def number_cell_def)





lemma clean_stripped_text: "clean_text (stripped_text t)"
  by (simp add: clean_text_def stripped_text_def strip_idem strip_nonspace)


lemma extract_questions_returns:
  "extract_questions e (sh # rest) tt m w =
     Inr (questions_loop e sh m (question_cols tt) (top_date sh) (start_row tt + 1) [] w)"
  by (simp add: extract_questions_def)

lemma questions_loop_projection:
  assumes "\<And>r w. f (fst (question_of_row e sh m (question_cols tt) (top_date sh) r w)) = g r"
  shows "map f (fst (questions_loop e sh m (question_cols tt) (top_date sh) (start_row tt + 1) [] w)) =
         map g (filter (\<lambda>r. number_cell (cells sh r 1)) (scanned_rows tt sh))"
  using questions_loop_map[of f e sh m "question_cols tt" "top_date sh" g "start_row tt + 1" "[]" w]
        assms
  by (simp add: fst_question_cols is_question_row_iff scanned_rows_def)

lemma table_sheet_questions:
  "extract_questions env0 [table_sheet] EQ Map.empty 0 =
     Inr ([\<lparr>no = ''1'', description = Some ''Hole too small'', suggestion = Some ''enlarge'',
             customerResponse = None, descriptionImages = [], suggestionImages = [],
             customerResponseImages = [], createdAt = None\<rparr>,
           \<lparr>no = ''2'', description = None, suggestion = None,
             customerResponse = Some ''OK'', descriptionImages = [], suggestionImages = [],
             customerResponseImages = [], createdAt = None\<rparr>], 0)"
  by (simp add: extract_questions_def table_sheet_def questions_loop.simps question_cols_def
        start_row_def top_date_def grid_of_def is_question_row_def question_of_row_def
        get_cell_value_with_images_def images_get_def stripped_text_def str_int_def
        str_nat.simps isdigit_def py_isdigit_char_def strip_def lstrip_def rstrip_def
        py_isspace_def)




lemma question_of_row_texts:
  "description (fst (question_of_row e sh m cols created r w)) =
     stripped_text (fst (get_cell_value_with_images sh r (fst (snd cols)) m))"
  "suggestion (fst (question_of_row e sh m cols created r w)) =
     stripped_text (fst (get_cell_value_with_images sh r (fst (snd (snd cols))) m))"
  "customerResponse (fst (question_of_row e sh m cols created r w)) =
     stripped_text (fst (get_cell_value_with_images sh r (snd (snd (snd cols))) m))"
  by (auto simp: question_of_row_def split: prod.splits)

lemma questions_loop_clean:
  assumes "\<And>r w. f (fst (question_of_row e sh m (question_cols tt) (top_date sh) r w)) =
                  stripped_text (g r)"
    and "q \<in> set (fst (questions_loop e sh m (question_cols tt) (top_date sh)
                        (start_row tt + 1) [] w))"
  shows "clean_text (f q)"
proof -
  have eq: "map f (fst (questions_loop e sh m (question_cols tt) (top_date sh)
                          (start_row tt + 1) [] w)) =
            map (\<lambda>r. stripped_text (g r))
              (filter (\<lambda>r. number_cell (cells sh r 1)) (scanned_rows tt sh))"
    by (rule questions_loop_projection) (rule assms(1))
  from assms(2) have "f q \<in> set (map f (fst (questions_loop e sh m (question_cols tt)
                        (top_date sh) (start_row tt + 1) [] w)))"
    unfolding set_map by (rule imageI)
  then have "f q \<in> set (map (\<lambda>r. stripped_text (g r))
                 (filter (\<lambda>r. number_cell (cells sh r 1)) (scanned_rows tt sh)))"
    unfolding eq .
  then obtain r where "f q = stripped_text (g r)" by auto
  then show ?thesis by (simp add: clean_stripped_text)
qed

text \<open>
  C10.  In every question the parser produces, each of \<open>description\<close>, \<open>suggestion\<close>
  and \<open>customerResponse\<close> is absent or a non-empty string that equals its own
  \<open>strip()\<close>; none is empty or made of whitespace only.
\<close>

theorem C10_optional_texts_clean:
  "\<exists>qs w'. extract_questions e (sh # rest) tt cell_to_images w = Inr (qs, w') \<and>
     (\<forall>q \<in> set qs. clean_text (description q) \<and> clean_text (suggestion q) \<and>
                    clean_text (customerResponse q))"
proof -
  let ?res = "questions_loop e sh cell_to_images (question_cols tt) (top_date sh)
                (start_row tt + 1) [] w"
  have "clean_text (description q) \<and> clean_text (suggestion q) \<and>
        clean_text (customerResponse q)" if "q \<in> set (fst ?res)" for q
    using that
    by (intro conjI; elim questions_loop_clean[rotated]) (rule question_of_row_texts)+
  moreover have "extract_questions e (sh # rest) tt cell_to_images w = Inr (fst ?res, snd ?res)"
    by (simp add: extract_questions_returns)
  ultimately show ?thesis by blast
qed

theorem C10_optional_texts_clean_witness:
  "\<exists>qs w'. extract_questions env0 [table_sheet] EQ Map.empty 0 = Inr (qs, w') \<and>
     map description qs = [Some ''Hole too small'', None] \<and>
     list_all (\<lambda>q. clean_text (description q) \<and> clean_text (suggestion q) \<and>
                   clean_text (customerResponse q)) qs"
proof -
  from C10_optional_texts_clean [of env0 table_sheet "[]" EQ Map.empty 0]
  obtain qs w' where
    ex: "extract_questions env0 [table_sheet] EQ Map.empty 0 = Inr (qs, w')" and
    cl: "\<forall>q \<in> set qs. clean_text (description q) \<and> clean_text (suggestion q) \<and>
                    clean_text (customerResponse q)"
    by blast
  from ex have "map description qs = [Some ''Hole too small'', None]"
    by (auto simp: table_sheet_questions)
  with ex cl show ?thesis by (auto simp: list_all_iff)
qed

section \<open>Properties of the metadata extraction\<close>

subsection \<open>Part-number lists\<close>


lemma split_on_no_sep: "w \<in> set (split_on sep s) \<Longrightarrow> sep \<notin> set w"
proof (induction s arbitrary: w)
  case Nil
  then show ?case by simp
next
  case (Cons c cs)
  then show ?case by (auto split: if_splits list.splits)
qed

lemma split_on_no_sep_id: "sep \<notin> set w \<Longrightarrow> split_on sep w = [w]"
  by (induction w) auto

lemma split_on_append_sep:
  "sep \<notin> set w \<Longrightarrow> split_on sep (w @ sep # rest) = w # split_on sep rest"
  by (induction w) auto

lemma split_on_join:
  "xs \<noteq> [] \<Longrightarrow> (\<And>w. w \<in> set xs \<Longrightarrow> sep \<notin> set w) \<Longrightarrow>
   split_on sep (join_with [sep] xs) = xs"
proof (induction "[sep]" xs rule: join_with.induct)
  case 1
  then show ?case by simp
next
  case (2 x)
  then show ?case by (simp add: split_on_no_sep_id)
next
  case (3 x y ys)
  then show ?case by (simp add: split_on_append_sep)
qed

lemma set_rstrip: "set (rstrip s) \<subseteq> set s"
  using rstrip_prefix[of s] by (rule set_mono_prefix)

lemma set_lstrip: "set (lstrip s) \<subseteq> set s"
  unfolding lstrip_def by (auto dest: set_dropWhileD)

lemma set_strip: "set (strip s) \<subseteq> set s"
  unfolding strip_def using set_rstrip set_lstrip by blast

lemma strip_Nil: "strip [] = []"
  by (simp add: strip_def lstrip_def rstrip_def)

lemma split_pn_elem:
  assumes "p \<in> set (split_pn s)"
  shows "p \<noteq> [] \<and> strip p = p \<and> newline \<notin> set p"
proof -
  from assms obtain w where w: "w \<in> set (split_on newline s)" "strip w \<noteq> []" "p = strip w"
    by (auto simp: split_pn_def)
  from w(1) have "newline \<notin> set w" by (rule split_on_no_sep)
  with set_strip[of w] w(3) have "newline \<notin> set p" by auto
  with w show ?thesis by (simp add: strip_idem)
qed

lemma split_pn_fixed:
  assumes "\<And>p. p \<in> set xs \<Longrightarrow> p \<noteq> [] \<and> strip p = p \<and> newline \<notin> set p"
  shows "split_pn (join_with [newline] xs) = xs"
proof (cases "xs = []")
  case True
  then show ?thesis by (simp add: split_pn_def strip_Nil)
next
  case False
  then have "split_on newline (join_with [newline] xs) = xs"
    using assms by (intro split_on_join) auto
  moreover have "filter (\<lambda>pn. strip pn \<noteq> []) xs = xs"
    using assms by (intro filter_True) auto
  moreover have "map strip xs = xs"
    using assms by (intro map_idI) auto
  ultimately show ?thesis by (simp add: split_pn_def)
qed

lemma split_pn_idempotent: "split_pn (join_with [newline] (split_pn s)) = split_pn s"
  by (rule split_pn_fixed) (rule split_pn_elem)

lemma split_pn_subseq: "subseq (split_pn s) (map strip (split_on newline s))"
  unfolding split_pn_def by (intro subseq_map subseq_filter_left)

subsection \<open>The scans return, and keep the part-number lists\<close>

lemma for_rows_preserves:
  assumes "\<And>r s s'. body r s = Inr s' \<Longrightarrow> f s' = f s"
    and "for_rows body rs s = Inr s'"
  shows "f s' = f s"
  using assms(2)
proof (induction rs arbitrary: s)
  case Nil
  then show ?case by simp
next
  case (Cons r rs)
  then obtain s1 where b: "body r s = Inr s1" and rest: "for_rows body rs s1 = Inr s'"
    by (auto split: sum.splits)
  from Cons.IH[OF rest] assms(1)[OF b] show ?case by simp
qed

lemma for_rows_returns:
  assumes "\<And>r s. r \<in> set rs \<Longrightarrow> \<exists>s'. body r s = Inr s'"
  shows "\<exists>s'. for_rows body rs s = Inr s'"
  using assms
proof (induction rs arbitrary: s)
  case Nil
  then show ?case by simp
next
  case (Cons r rs)
  from Cons.prems[of r s] obtain s1 where b: "body r s = Inr s1" by auto
  from Cons.IH[of s1] Cons.prems obtain s' where "for_rows body rs s1 = Inr s'" by auto
  with b show ?case by simp
qed

lemma set_py_range: "set (py_range a b) = {a ..< b}"
  by (auto simp: py_range_def)

lemma py_range_Cons: "a < b \<Longrightarrow> py_range a b = a # py_range (a + 1) b"
  by (simp add: py_range_def upto_rec1)

lemma signature_preserves_pn:
  "customerPN (set_stg_signature t md) = customerPN md"
  "factoryPN (set_stg_signature t md) = factoryPN md"
  "stgPN (set_stg_signature t md) = stgPN md"
  "customerPN (set_customer_signature t md) = customerPN md"
  "factoryPN (set_customer_signature t md) = factoryPN md"
  "stgPN (set_customer_signature t md) = stgPN md"
  by (auto simp: set_stg_signature_def set_customer_signature_def split: prod.splits option.splits)

lemma cea_row_pn:
  assumes "cea_row sh r md = Inr md'"
  shows "customerPN md' = customerPN md \<and> factoryPN md' = factoryPN md \<and> stgPN md' = stgPN md"
proof -
  from assms have "md' = projr (cea_row sh r md)" and "\<not> r < 1"
    by (auto simp: cea_row_def split: if_splits)
  then show ?thesis
    by (simp add: cea_row_def Let_def if_distrib[of customerPN] if_distrib[of factoryPN]
          if_distrib[of stgPN] cell_value.case_distrib[of customerPN]
          cell_value.case_distrib[of factoryPN] cell_value.case_distrib[of stgPN]
        split: cell_value.split)
qed

lemma eq_row_pn:
  assumes "eq_row sh r md = Inr md'"
  shows "customerPN md' = customerPN md \<and> factoryPN md' = factoryPN md \<and> stgPN md' = stgPN md"
proof -
  from assms have "md' = projr (eq_row sh r md)" and "\<not> r < 1"
    by (auto simp: eq_row_def split: if_splits)
  then show ?thesis
    by (simp add: eq_row_def Let_def if_distrib[of customerPN] if_distrib[of factoryPN]
          if_distrib[of stgPN] if_distrib[of projr] cell_value.case_distrib[of customerPN]
          cell_value.case_distrib[of factoryPN] cell_value.case_distrib[of stgPN]
        split: cell_value.split)
qed

lemma starteam_row_pn:
  assumes "starteam_row sh r md = Inr md'"
  shows "customerPN md' = customerPN md \<and> factoryPN md' = factoryPN md \<and> stgPN md' = stgPN md"
proof -
  from assms have "md' = projr (starteam_row sh r md)" and "\<not> r < 1"
    by (auto simp: starteam_row_def split: if_splits)
  then show ?thesis
    by (simp add: starteam_row_def Let_def if_distrib[of customerPN] if_distrib[of factoryPN]
          if_distrib[of stgPN] if_distrib[of projr] signature_preserves_pn)
qed

lemma common_metadata_pn:
  "customerPN (common_metadata sh) = pn_list (cells sh 2 3)"
  "factoryPN (common_metadata sh) = pn_list (cells sh 2 5)"
  "stgPN (common_metadata sh) = pn_list (cells sh 3 3)"
  by (simp_all add: common_metadata_def pn_list_def Let_def initial_metadata_def
        if_distrib[of customerPN] if_distrib[of factoryPN] if_distrib[of stgPN]
        cell_value.case_distrib[of customerPN] cell_value.case_distrib[of factoryPN]
        cell_value.case_distrib[of stgPN]
      split: cell_value.split)

lemma row_returns:
  "1 \<le> r \<Longrightarrow> \<exists>md'. cea_row sh r md = Inr md'"
  "1 \<le> r \<Longrightarrow> \<exists>md'. eq_row sh r md = Inr md'"
  "1 \<le> r \<Longrightarrow> \<exists>md'. starteam_row sh r md = Inr md'"
  by (auto simp: cea_row_def eq_row_def starteam_row_def Let_def)

lemma extract_metadata_returns:
  assumes "tt = CEA \<or> 10 < max_row sh"
  shows "\<exists>md. extract_metadata (sh # rest) tt = Inr md"
proof (cases tt)
  case CEA
  then show ?thesis
    by (auto simp: extract_metadata_def Let_def set_py_range intro!: for_rows_returns row_returns)
next
  case EQ
  with assms show ?thesis
    by (auto simp: extract_metadata_def Let_def set_py_range intro!: for_rows_returns row_returns)
next
  case Starteam
  with assms show ?thesis
    by (auto simp: extract_metadata_def Let_def set_py_range intro!: for_rows_returns row_returns)
qed

lemma extract_metadata_fails:
  assumes "tt \<noteq> CEA" and "max_row sh \<le> 10"
  shows "extract_metadata (sh # rest) tt = Inl ValueError"
proof -
  have r: "py_range (int (max_row sh) - 10) (int (max_row sh)) =
           (int (max_row sh) - 10) # py_range (int (max_row sh) - 10 + 1) (int (max_row sh))"
    by (rule py_range_Cons) simp
  from assms show ?thesis
    by (cases tt) (simp_all add: extract_metadata_def Let_def r eq_row_def starteam_row_def)
qed

lemma extract_metadata_pn:
  assumes "extract_metadata (sh # rest) tt = Inr md"
  shows "customerPN md = pn_list (cells sh 2 3) \<and> factoryPN md = pn_list (cells sh 2 5) \<and>
         stgPN md = pn_list (cells sh 3 3)"
proof -
  let ?f = "\<lambda>m. (customerPN m, factoryPN m, stgPN m)"
  have cea: "?f md' = ?f md0" if "for_rows (cea_row sh) rs md0 = Inr md'" for rs md0 md'
    using _ that by (rule for_rows_preserves) (simp add: cea_row_pn)
  have eq: "?f md' = ?f md0" if "for_rows (eq_row sh) rs md0 = Inr md'" for rs md0 md'
    using _ that by (rule for_rows_preserves) (simp add: eq_row_pn)
  have st: "?f md' = ?f md0" if "for_rows (starteam_row sh) rs md0 = Inr md'" for rs md0 md'
    using _ that by (rule for_rows_preserves) (simp add: starteam_row_pn)
  show ?thesis
  proof (cases tt)
    case CEA
    with assms cea show ?thesis
      by (fastforce simp: extract_metadata_def Let_def common_metadata_pn)
  next
    case EQ
    with assms eq show ?thesis
      by (fastforce simp: extract_metadata_def Let_def common_metadata_pn)
  next
    case Starteam
    with assms
    have "for_rows (starteam_row sh) (py_range (int (max_row sh) - 10) (int (max_row sh)))
            (let md = common_metadata sh;
                  md = (if truthy (cells sh 8 3)
                          then md\<lparr>viaPluggingType := Some (py_str (cells sh 8 3))\<rparr> else md);
                  md = (if truthy (cells sh 8 5)
                          then md\<lparr>panelSize := Some (py_str (cells sh 8 5))\<rparr> else md)
              in md) = Inr md"
      by (simp add: extract_metadata_def Let_def)
    from st[OF this] show ?thesis
      by (simp add: Let_def common_metadata_pn if_distrib[of customerPN] if_distrib[of factoryPN]
            if_distrib[of stgPN])
  qed
qed

text \<open>
  C5.  Metadata extraction returns for the approval form and for every sheet of more
  than ten rows, and whenever it returns, each of \<open>customerPN\<close>, \<open>factoryPN\<close> and
  \<open>stgPN\<close> is the split of its cell: no element is empty, every element is stripped, the
  elements follow the order of the cell's lines, and joining the list with newlines and
  splitting again gives the same list.
\<close>

theorem C5_part_number_lists:
  "(tt = CEA \<or> 10 < max_row sh \<longrightarrow> (\<exists>md. extract_metadata (sh # rest) tt = Inr md)) \<and>
   (\<forall>md. extract_metadata (sh # rest) tt = Inr md \<longrightarrow>
      (\<forall>(pns, v) \<in> {(customerPN md, cells sh 2 3), (factoryPN md, cells sh 2 5),
                      (stgPN md, cells sh 3 3)}.
         pns = pn_list v \<and> [] \<notin> set pns \<and> (\<forall>p \<in> set pns. strip p = p) \<and>
         subseq pns (map strip (split_on newline (py_str v))) \<and>
         split_pn (join_with [newline] pns) = pns))"
proof -
  have props: "[] \<notin> set (pn_list v) \<and> (\<forall>p \<in> set (pn_list v). strip p = p) \<and>
         subseq (pn_list v) (map strip (split_on newline (py_str v))) \<and>
         split_pn (join_with [newline] (pn_list v)) = pn_list v" for v
  proof (cases "truthy v")
    case True
    then show ?thesis
      using split_pn_elem[of _ "py_str v"]
      by (auto simp: pn_list_def split_pn_subseq split_pn_idempotent)
  next
    case False
    then show ?thesis by (simp add: pn_list_def split_pn_def strip_Nil)
  qed
  show ?thesis
  proof (intro conjI impI allI)
    assume "tt = CEA \<or> 10 < max_row sh"
    then show "\<exists>md. extract_metadata (sh # rest) tt = Inr md"
      by (rule extract_metadata_returns)
  next
    fix md
    assume "extract_metadata (sh # rest) tt = Inr md"
    from extract_metadata_pn[OF this] props
    show "\<forall>(pns, v) \<in> {(customerPN md, cells sh 2 3), (factoryPN md, cells sh 2 5),
                      (stgPN md, cells sh 3 3)}.
         pns = pn_list v \<and> [] \<notin> set pns \<and> (\<forall>p \<in> set pns. strip p = p) \<and>
         subseq pns (map strip (split_on newline (py_str v))) \<and>
         split_pn (join_with [newline] pns) = pns"
      by simp
  qed
qed

lemma cea_sheet_pn_lists:
  "pn_list (cells cea_sheet 2 3) = [''PN-100'', ''PN-200'']"
  "pn_list (cells cea_sheet 2 5) = [''4711'']"
  "pn_list (cells cea_sheet 3 3) = []"
  by (simp_all add: cea_sheet_def grid_of_def pn_list_def split_pn_def strip_def lstrip_def
        rstrip_def py_isspace_def str_int_def str_nat.simps)

theorem C5_part_number_lists_witness:
  "\<exists>md. extract_metadata [cea_sheet] CEA = Inr md \<and>
     customerPN md = [''PN-100'', ''PN-200''] \<and> factoryPN md = [''4711''] \<and> stgPN md = [] \<and>
     split_pn (join_with [newline] (customerPN md)) = customerPN md"
proof -
  from C5_part_number_lists [of CEA cea_sheet "[]"]
  obtain md where md: "extract_metadata [cea_sheet] CEA = Inr md"
    by blast
  with C5_part_number_lists [of CEA cea_sheet "[]"]
  have all: "\<forall>(pns, v) \<in> {(customerPN md, cells cea_sheet 2 3),
                      (factoryPN md, cells cea_sheet 2 5), (stgPN md, cells cea_sheet 3 3)}.
         pns = pn_list v \<and> [] \<notin> set pns \<and> (\<forall>p \<in> set pns. strip p = p) \<and>
         subseq pns (map strip (split_on newline (py_str v))) \<and>
         split_pn (join_with [newline] pns) = pns"
    by blast
  from all have "customerPN md = pn_list (cells cea_sheet 2 3)" by simp
  moreover from all have "factoryPN md = pn_list (cells cea_sheet 2 5)" by simp
  moreover from all have "stgPN md = pn_list (cells cea_sheet 3 3)" by simp
  moreover from all have "split_pn (join_with [newline] (customerPN md)) = customerPN md"
    by blast
  ultimately
  have "customerPN md = [''PN-100'', ''PN-200''] \<and> factoryPN md = [''4711''] \<and>
        stgPN md = [] \<and> split_pn (join_with [newline] (customerPN md)) = customerPN md"
    by (simp only: cea_sheet_pn_lists simp_thms)
  with md show ?thesis by blast
qed

subsection \<open>Signature cells of the extended template\<close>


lemma payload_malformed_example:
  "signature_payload (''not-a-date'' @ [newline] @ ''John Doe'') =
     (None, [''not-a-date'' @ [newline] @ ''John Doe''])"
  by (simp add: signature_payload_def strptime_dmY_def strip_def lstrip_def rstrip_def
        py_isspace_def)















section \<open>Properties of the classifier\<close>

text \<open>
  C8.  A workbook whose first sheet is named exactly \<open>CEA\<close>, has at most 6 columns, and
  whose sample text holds neither questionnaire keyword is classified as the approval
  form, and the check on structure is what yields it.  (The approval-form keywords need
  not be absent: with them the same answer comes from the first rule.)
\<close>

theorem C8_cea_structural_fallback:
  assumes "title sh = ''CEA''" and "max_column sh \<le> 6"
    and "\<not> py_in ''Engineering Questionnaire'' (sample_text sh)"
    and "\<not> py_in ''EQ'' (sample_text sh)"
  shows "identify_template_type (sh # rest) = Inr (Some CEA) \<and>
         questionnaire_check sh = structure_check sh \<and> structure_check sh = Some CEA"
  using assms
  by (simp add: identify_template_type_def questionnaire_check_def structure_check_def)

lemma cea_sheet_no_keywords:
  "\<not> py_in ''Engineering Questionnaire'' (sample_text cea_sheet)"
  "\<not> py_in ''EQ'' (sample_text cea_sheet)"
  "\<not> py_in ''CEA'' (sample_text cea_sheet)"
  by (simp_all add: sample_text_def sample_row_def cea_sheet_def grid_of_def upt_rec
        str_int_def str_nat.simps)

theorem C8_cea_structural_fallback_witness:
  "title cea_sheet = ''CEA'' \<and> max_column cea_sheet = 5 \<and>
   \<not> py_in ''CEA'' (sample_text cea_sheet) \<and>
   identify_template_type [cea_sheet] = Inr (Some CEA) \<and>
   structure_check cea_sheet = Some CEA"
proof -
  have t: "title cea_sheet = ''CEA''" and c: "max_column cea_sheet = 5"
    by (simp_all add: cea_sheet_def)
  from c have c6: "max_column cea_sheet \<le> 6" by simp
  from C8_cea_structural_fallback [OF t c6 cea_sheet_no_keywords(1,2), of "[]"] t c
    cea_sheet_no_keywords(3)
  show ?thesis by simp
qed

section \<open>Properties of the validator\<close>

lemma check_questions_eq:
  "check_questions i qs errors =
     errors @ map (\<lambda>(i, q). missing_no_message i)
                (filter (\<lambda>(i, q). q_no q = []) (enumerate i qs))"
  by (induction qs arbitrary: i errors) auto

lemma validate_violated_rules: "snd (validate_extracted_data d) = violated_rules d"
  by (simp add: validate_extracted_data_def violated_rules_def check_questions_eq Let_def)

lemma validate_flag: "fst (validate_extracted_data d) = (snd (validate_extracted_data d) = [])"
  by (simp add: validate_extracted_data_def Let_def)

lemma filter_enumerate_empty:
  "(filter (\<lambda>(i, q). P q) (enumerate n qs) = []) = (\<forall>q \<in> set qs. \<not> P q)"
  by (induction qs arbitrary: n) auto

lemma violated_rules_empty:
  "(violated_rules d = []) =
     (eq_customerName d \<noteq> [] \<and> eq_fileName d \<noteq> [] \<and>
      (\<forall>q \<in> set (eq_questions d). q_no q \<noteq> []))"
  by (simp add: violated_rules_def filter_enumerate_empty)

text \<open>
  C2.  Validation fails exactly when \<open>customerName\<close> is empty, or \<open>fileName\<close> is empty,
  or some question's \<open>no\<close> is empty.  It returns the flag together with the violated
  rules in order, the flag being true exactly when that list is empty.  The optional
  fields do not matter: whatever the engineer name, materials, panel data and signatures
  are set to, the result is the same.  The function only reads its argument: its result
  is the pair, and the document is not part of it.
\<close>

theorem C2_validation:
  "(\<not> fst (validate_extracted_data d)) =
      (eq_customerName d = [] \<or> eq_fileName d = [] \<or>
       (\<exists>q \<in> set (eq_questions d). q_no q = [])) \<and>
   snd (validate_extracted_data d) = violated_rules d \<and>
   fst (validate_extracted_data d) = (snd (validate_extracted_data d) = []) \<and>
   validate_extracted_data
     (d\<lparr>eq_engineerName := engineer, eq_baseMaterial := material, eq_solderMask := solder,
        eq_viaPluggingType := via, eq_panelSize := panel,
        eq_stgSignatureDate := stg_date, eq_stgSignatures := stg_sigs,
        eq_customerSignatureDate := customer_date, eq_customerSignatures := customer_sigs\<rparr>) =
     validate_extracted_data d"
proof -
  have "(\<not> fst (validate_extracted_data d)) =
      (eq_customerName d = [] \<or> eq_fileName d = [] \<or>
       (\<exists>q \<in> set (eq_questions d). q_no q = []))"
    unfolding validate_flag validate_violated_rules violated_rules_empty by blast
  then show ?thesis
    by (simp add: validate_violated_rules validate_flag)
       (simp add: validate_extracted_data_def)
qed

theorem C2_validation_witness:
  "\<not> fst (validate_extracted_data (bare_document [bare_question ''1'', bare_question ''''])) \<and>
   snd (validate_extracted_data (bare_document [bare_question ''1'', bare_question ''''])) =
     [''Question 2 missing required field: no''] \<and>
   fst (validate_extracted_data (bare_document [bare_question ''1''])) \<and>
   eq_engineerName (bare_document [bare_question ''1'']) = None \<and>
   validate_extracted_data
     ((bare_document [bare_question ''1''])\<lparr>eq_engineerName := Some ''J. Smith''\<rparr>) =
     (True, [])"
proof -
  let ?bad = "bare_document [bare_question ''1'', bare_question '''']"
  let ?good = "bare_document [bare_question ''1'']"
  have rules: "violated_rules ?bad = [''Question 2 missing required field: no'']"
    by (simp add: violated_rules_def bare_document_def bare_question_def
          missing_no_message_def str_nat.simps)
  from C2_validation [of ?bad] rules
  have bad: "\<not> fst (validate_extracted_data ?bad) \<and>
             snd (validate_extracted_data ?bad) = [''Question 2 missing required field: no'']"
    by simp
  have "violated_rules ?good = []"
    by (simp add: violated_rules_def bare_document_def bare_question_def)
  with C2_validation [of ?good]
  have good: "fst (validate_extracted_data ?good)" "snd (validate_extracted_data ?good) = []"
    by simp_all
  then have "validate_extracted_data ?good = (True, [])"
    by (simp add: prod_eq_iff)
  moreover
  from C2_validation [where d = ?good and engineer = "Some ''J. Smith''"
      and material = "eq_baseMaterial ?good" and solder = "eq_solderMask ?good"
      and via = "eq_viaPluggingType ?good" and panel = "eq_panelSize ?good"
      and stg_date = "eq_stgSignatureDate ?good" and stg_sigs = "eq_stgSignatures ?good"
      and customer_date = "eq_customerSignatureDate ?good"
      and customer_sigs = "eq_customerSignatures ?good"]
  have "validate_extracted_data (?good\<lparr>eq_engineerName := Some ''J. Smith''\<rparr>) =
        validate_extracted_data ?good"
    by simp
  ultimately show ?thesis
    using bad good by (simp add: bare_document_def)
qed

section \<open>Properties of the image extractor\<close>

lemma digit_value_digit: "d < 10 \<Longrightarrow> digit_value (''0123456789'' ! d) = d"
proof -
  assume "d < 10"
  then have "d \<in> {0,1,2,3,4,5,6,7,8,9}" by auto
  then show ?thesis by (auto simp: digit_value_def)
qed

lemma str_nat_value: "foldl (\<lambda>a c. 10 * a + digit_value c) 0 (str_nat n) = n"
proof (induction n rule: str_nat.induct)
  case (1 n)
  show ?case
  proof (cases "n < 10")
    case True
    then show ?thesis by (subst str_nat.simps) (simp add: digit_value_digit)
  next
    case False
    with 1 show ?thesis by (subst str_nat.simps) (simp add: digit_value_digit)
  qed
qed

lemma str_nat_inj: "str_nat n = str_nat m \<Longrightarrow> n = m"
  by (metis str_nat_value)

lemma image_name_inj: "image_name n = image_name m \<Longrightarrow> n = m"
  by (auto simp: image_name_def dest: str_nat_inj)


lemma images_get_upd:
  "images_get (m(k' \<mapsto> v)) k = (if k = k' then v else images_get m k)"
  by (simp add: images_get_def)

lemma save_drawing_unanchored:
  "anchor_from d = None \<Longrightarrow> save_drawing dir d st = st"
  by (simp add: save_drawing_def)

lemma save_drawing_counter:
  "anchor_from d \<noteq> None \<Longrightarrow> image_counter (save_drawing dir d st) = Suc (image_counter st)"
  by (auto simp: save_drawing_def Let_def split: option.splits)

lemma save_drawing_found:
  "anchor_from d \<noteq> None \<Longrightarrow>
   images_get (found (save_drawing dir d st)) k =
     images_get (found st) k @
       (if png d \<noteq> None \<and> anchor_key d = Some k then [image_name (image_counter st)] else [])"
  by (auto simp: save_drawing_def Let_def anchor_key_def images_get_upd split: option.splits)

lemma fold_save_drawing:
  "image_counter (fold (save_drawing dir) ds st) =
     image_counter st + length (filter (\<lambda>d. anchor_from d \<noteq> None) ds) \<and>
   images_get (found (fold (save_drawing dir) ds st)) k =
     images_get (found st) k @
       map (\<lambda>(n, d). image_name n)
         (filter (\<lambda>(n, d). png d \<noteq> None \<and> anchor_key d = Some k)
            (enumerate (image_counter st) (filter (\<lambda>d. anchor_from d \<noteq> None) ds)))"
proof (induction ds arbitrary: st)
  case Nil
  then show ?case by simp
next
  case (Cons d ds)
  show ?case
  proof (cases "anchor_from d = None")
    case True
    with Cons.IH[of st] show ?thesis by (simp add: save_drawing_unanchored)
  next
    case False
    with Cons.IH[of "save_drawing dir d st"] show ?thesis
      by (simp add: save_drawing_counter save_drawing_found)
  qed
qed

lemma fold_fold_concat:
  "fold (\<lambda>x. fold f (g x)) xs s = fold f (concat (map g xs)) s"
  by (induction xs arbitrary: s) simp_all

lemma extract_images_found:
  "images_get (fst (extract_images wb output_dir tt fs)) k = map image_name (numbers_at wb k)"
proof -
  let ?dir = "os_path_join output_dir ''images''"
  let ?st = "\<lparr>found = Map.empty, image_counter = 1, disk = makedirs ?dir fs\<rparr>"
  have "fold (\<lambda>sh. fold (save_drawing ?dir) (images sh)) wb ?st =
        fold (save_drawing ?dir) (concat (map images wb)) ?st"
    by (rule fold_fold_concat)
  then show ?thesis
    using fold_save_drawing[of ?dir "concat (map images wb)" ?st k]
    by (simp add: extract_images_def Let_def numbers_at_def anchored_drawings_def
          images_get_def comp_def case_prod_unfold)
qed

lemma numbers_at_iff:
  "n \<in> set (numbers_at wb k) \<longleftrightarrow>
     1 \<le> n \<and> n \<le> length (anchored_drawings wb) \<and>
     png (anchored_drawings wb ! (n - 1)) \<noteq> None \<and>
     anchor_key (anchored_drawings wb ! (n - 1)) = Some k"
  by (auto simp: numbers_at_def in_set_enumerate_eq image_iff)

lemma numbers_at_sorted: "sorted_wrt (<) (numbers_at wb k)"
proof -
  have "sorted_wrt (<) (map fst (enumerate 1 (anchored_drawings wb)))"
    by (simp only: map_fst_enumerate sorted_wrt_upt)
  then have "sorted_wrt (\<lambda>x y. fst x < fst y) (enumerate 1 (anchored_drawings wb))"
    by (simp only: sorted_wrt_map)
  then have "sorted_wrt (\<lambda>x y. fst x < fst y)
               (filter (\<lambda>(n, d). png d \<noteq> None \<and> anchor_key d = Some k)
                  (enumerate 1 (anchored_drawings wb)))"
    by (rule sorted_wrt_filter)
  then show ?thesis by (simp add: numbers_at_def sorted_wrt_map)
qed

lemma numbers_at_distinct: "distinct (numbers_at wb k)"
  using numbers_at_sorted[of wb k] by (simp add: strict_sorted_iff)

lemma names_distinct: "distinct (map image_name (numbers_at wb k))"
  by (simp add: distinct_map numbers_at_distinct inj_on_def image_name_inj)

lemma names_disjoint:
  "k \<noteq> k' \<Longrightarrow>
   set (map image_name (numbers_at wb k)) \<inter> set (map image_name (numbers_at wb k')) = {}"
  by (auto simp: numbers_at_iff dest!: image_name_inj)

text \<open>
  C9.  Number the anchored drawings of the workbook 1, 2, 3, ... in the order the loops
  meet them, over all sheets, whether or not they decode.  The list the map holds for a
  coordinate is \<open>image_<n>.png\<close> for the numbers \<open>n\<close> of the decoded drawings anchored
  there, in increasing order.  Hence numbers start at 1 and increase in discovery order,
  no name occurs twice in the map, and the number of a drawing that failed to decode
  names no file.
\<close>

theorem C9_image_names:
  "(\<forall>k. images_get (fst (extract_images wb output_dir tt fs)) k =
          map image_name (numbers_at wb k) \<and>
        sorted_wrt (<) (numbers_at wb k) \<and>
        distinct (images_get (fst (extract_images wb output_dir tt fs)) k)) \<and>
   (\<forall>k n. (n \<in> set (numbers_at wb k)) =
      (1 \<le> n \<and> n \<le> length (anchored_drawings wb) \<and>
       png (anchored_drawings wb ! (n - 1)) \<noteq> None \<and>
       anchor_key (anchored_drawings wb ! (n - 1)) = Some k)) \<and>
   (\<forall>k k'. k \<noteq> k' \<longrightarrow>
      set (images_get (fst (extract_images wb output_dir tt fs)) k) \<inter>
      set (images_get (fst (extract_images wb output_dir tt fs)) k') = {}) \<and>
   (\<forall>n k. 1 \<le> n \<and> n \<le> length (anchored_drawings wb) \<and>
          png (anchored_drawings wb ! (n - 1)) = None \<longrightarrow>
      image_name n \<notin> set (images_get (fst (extract_images wb output_dir tt fs)) k))"
proof (intro conjI allI impI)
  fix n k
  assume "1 \<le> n \<and> n \<le> length (anchored_drawings wb) \<and>
          png (anchored_drawings wb ! (n - 1)) = None"
  then have "n \<notin> set (numbers_at wb k)" by (simp add: numbers_at_iff)
  then show "image_name n \<notin> set (images_get (fst (extract_images wb output_dir tt fs)) k)"
    by (auto simp: extract_images_found dest!: image_name_inj)
next
  fix k k' :: coord
  assume "k \<noteq> k'"
  then show "set (images_get (fst (extract_images wb output_dir tt fs)) k) \<inter>
      set (images_get (fst (extract_images wb output_dir tt fs)) k') = {}"
    unfolding extract_images_found by (rule names_disjoint)
qed (simp_all only: extract_images_found names_distinct names_disjoint numbers_at_sorted
       numbers_at_iff)

lemma form_workbook_anchored:
  "anchored_drawings (form_workbook c) =
     [\<lparr>anchor_from = Some (1, 9), png = Some ''PNG-A''\<rparr>,
      \<lparr>anchor_from = Some (2, 9), png = None\<rparr>,
      \<lparr>anchor_from = Some (3, 10), png = Some ''PNG-D''\<rparr>,
      \<lparr>anchor_from = Some (1, 9), png = Some ''PNG-E''\<rparr>]"
  by (simp add: anchored_drawings_def form_workbook_def form_sheet_def notes_sheet_def)

lemma coord_examples:
  "cell_coord (ord_A + 1) 10 = [66, 49, 48]"
  "cell_coord (ord_A + 2) 10 = [67, 49, 48]"
  "cell_coord (ord_A + 3) 11 = [68, 49, 49]"
  by (simp_all add: cell_coord_def ord_A_def str_nat.simps)

lemma form_workbook_numbers:
  "numbers_at (form_workbook c) [66, 49, 48] = [1, 4]"
  "numbers_at (form_workbook c) [67, 49, 48] = []"
  "numbers_at (form_workbook c) [68, 49, 49] = [3]"
  by (simp_all add: numbers_at_def form_workbook_anchored anchor_key_def cell_coord_def
        ord_A_def str_nat.simps)

lemma image_name_examples:
  "image_name 1 = ''image_1.png''" "image_name 2 = ''image_2.png''"
  "image_name 3 = ''image_3.png''" "image_name 4 = ''image_4.png''"
  by (simp_all add: image_name_def str_nat.simps)

theorem C9_image_names_witness:
  "images_get (fst (extract_images (form_workbook CNone) ''out/form'' CEA empty_disk))
     (cell_coord (ord_A + 1) 10) = [''image_1.png'', ''image_4.png''] \<and>
   images_get (fst (extract_images (form_workbook CNone) ''out/form'' CEA empty_disk))
     (cell_coord (ord_A + 3) 11) = [''image_3.png''] \<and>
   png (anchored_drawings (form_workbook CNone) ! (2 - 1)) = None \<and>
   image_name 2 \<notin> set (images_get
     (fst (extract_images (form_workbook CNone) ''out/form'' CEA empty_disk))
     (cell_coord (ord_A + 2) 10))"
proof -
  note c9 = C9_image_names [of "form_workbook CNone" "''out/form''" CEA empty_disk]
  from c9 have get: "images_get (fst (extract_images (form_workbook CNone) ''out/form'' CEA
        empty_disk)) k = map image_name (numbers_at (form_workbook CNone) k)" for k
    by blast
  have failed: "png (anchored_drawings (form_workbook CNone) ! (2 - 1)) = None"
    by (simp add: form_workbook_anchored)
  from c9 have "1 \<le> n \<and> n \<le> length (anchored_drawings (form_workbook CNone)) \<and>
          png (anchored_drawings (form_workbook CNone) ! (n - 1)) = None \<longrightarrow>
      image_name n \<notin> set (images_get (fst (extract_images (form_workbook CNone) ''out/form''
        CEA empty_disk)) k)" for n k
    by blast
  from this[of 2 "cell_coord (ord_A + 2) 10"] failed
  have "image_name 2 \<notin> set (images_get
     (fst (extract_images (form_workbook CNone) ''out/form'' CEA empty_disk))
     (cell_coord (ord_A + 2) 10))"
    by (simp add: form_workbook_anchored)
  with failed show ?thesis
    unfolding get coord_examples form_workbook_numbers
    by (simp add: image_name_def str_nat.simps)
qed

section \<open>Binding of images to questions\<close>















subsection \<open>The form with four drawings\<close>











section \<open>Properties of the outlier handler and the driver\<close>

lemma basename_no_slash: "CHR ''/'' \<notin> set (basename p)"
  by (auto simp: basename_def dest: set_takeWhileD)

lemma os_path_join_relative:
  "\<not> prefix ''/'' b \<Longrightarrow>
   os_path_join a b = (if a = [] \<or> last a = CHR ''/'' then a else a @ ''/'') @ b"
  by (simp add: os_path_join_def)

lemma os_path_join_inj:
  "\<not> prefix ''/'' a \<Longrightarrow> \<not> prefix ''/'' b \<Longrightarrow> os_path_join d a = os_path_join d b \<Longrightarrow> a = b"
  by (simp add: os_path_join_relative)

lemma not_prefix_slash: "CHR ''/'' \<notin> set s \<Longrightarrow> \<not> prefix ''/'' s"
  by (cases s) auto

lemma splitext_root_take: "\<exists>n. splitext_root name = take n name"
  by (auto simp: splitext_root_def Let_def intro: exI[of _ "length name"])

lemma length_takeWhile_less:
  "x \<in> set xs \<Longrightarrow> \<not> P x \<Longrightarrow> length (takeWhile P xs) < length xs"
  by (induction xs) auto

lemma splitext_root_shape:
  "name = splitext_root name \<or> (\<exists>ext. name = splitext_root name @ CHR ''.'' # ext)"
proof (cases "CHR ''.'' \<in> set name")
  case False
  then show ?thesis by (simp add: splitext_root_def)
next
  case dot: True
  define l where "l = length (takeWhile (\<lambda>c. c \<noteq> CHR ''.'') (rev name))"
  define i where "i = length name - l - 1"
  have root: "splitext_root name =
                (if list_all (\<lambda>c. c = CHR ''.'') (take i name) then name else take i name)"
    using dot by (simp add: splitext_root_def Let_def l_def i_def)
  from dot have "CHR ''.'' \<in> set (rev name)" by simp
  then have l: "l < length (rev name)"
    unfolding l_def by (rule length_takeWhile_less) simp
  then have "\<not> (rev name ! l \<noteq> CHR ''.'')"
    unfolding l_def by (rule nth_length_takeWhile)
  moreover from l have "rev name ! l = name ! i"
    by (simp add: rev_nth i_def)
  ultimately have dot_at: "name ! i = CHR ''.''" by simp
  from l have "i < length name" by (simp add: i_def)
  then have split: "name = take i name @ name ! i # drop (Suc i) name"
    by (rule id_take_nth_drop)
  show ?thesis
  proof (cases "list_all (\<lambda>c. c = CHR ''.'') (take i name)")
    case True
    with root show ?thesis by simp
  next
    case False
    with root have "splitext_root name = take i name" by simp
    with split dot_at have "name = splitext_root name @ CHR ''.'' # drop (Suc i) name"
      by simp
    then show ?thesis by blast
  qed
qed

lemma info_name_differs: "name \<noteq> splitext_root name @ ''_info.txt''"
proof
  let ?root = "splitext_root name"
  assume eq: "name = ?root @ ''_info.txt''"
  have len: "length name = length ?root + 9"
    using arg_cong[OF eq, of length] by simp
  have tail: "drop (length ?root) name = ''_info.txt''"
    using arg_cong[OF eq, of "drop (length ?root)"] by simp
  from splitext_root_shape[of name] show False
  proof
    assume a: "name = ?root"
    have "length name = length ?root" using arg_cong[OF a, of length] .
    with len show False by simp
  next
    assume "\<exists>ext. name = ?root @ CHR ''.'' # ext"
    then obtain ext where b: "name = ?root @ CHR ''.'' # ext" by blast
    have "drop (length ?root) name = CHR ''.'' # ext"
      using arg_cong[OF b, of "drop (length ?root)"] by simp
    with tail show False by simp
  qed
qed

lemma outlier_paths_differ:
  "os_path_join outlier_dir (basename file_path) \<noteq>
   os_path_join outlier_dir (splitext_root (basename file_path) @ ''_info.txt'')"
proof
  let ?name = "basename file_path"
  assume eq: "os_path_join outlier_dir ?name =
              os_path_join outlier_dir (splitext_root ?name @ ''_info.txt'')"
  have a: "\<not> prefix ''/'' ?name"
    by (rule not_prefix_slash) (rule basename_no_slash)
  obtain n where "splitext_root ?name = take n ?name"
    using splitext_root_take by blast
  then have "CHR ''/'' \<notin> set (splitext_root ?name @ ''_info.txt'')"
    using basename_no_slash[of file_path] by (auto dest: in_set_takeD)
  then have b: "\<not> prefix ''/'' (splitext_root ?name @ ''_info.txt'')"
    by (rule not_prefix_slash)
  from os_path_join_inj[OF a b eq] info_name_differs show False by blast
qed

text \<open>
  C7.  When the file exists, loads, and the classifier returns none, the driver reports
  an outlier handled with success and changes the file system in exactly two places:
  the outlier directory receives the file under its own name with the bytes of the
  original, and beside it the note \<open><name without extension>_info.txt\<close> holding the file
  name, the original path, the time of processing and the fixed reason.  The note never
  overwrites the copy.  No directory is created, no identifier is drawn, and nothing is
  extracted or written for a document.
\<close>

theorem C7_outlier_routing:
  assumes "files fs file_path = Some bytes"
    and "parse_workbook e bytes = Inr wb"
    and "identify_template_type wb = Inr None"
  shows "process_excel_file e file_path output_dir outlier_dir w fs =
           ((True, True), Suc w,
            fs\<lparr>files := (files fs)
               (os_path_join outlier_dir (basename file_path) \<mapsto> bytes,
                os_path_join outlier_dir (splitext_root (basename file_path) @ ''_info.txt'')
                  \<mapsto> outlier_note (basename file_path) file_path (now_isoformat e w))\<rparr>) \<and>
         files (snd (snd (process_excel_file e file_path output_dir outlier_dir w fs)))
           (os_path_join outlier_dir (basename file_path)) = Some bytes \<and>
         dirs (snd (snd (process_excel_file e file_path output_dir outlier_dir w fs))) = dirs fs"
proof -
  have p: "process_excel_file e file_path output_dir outlier_dir w fs =
           ((True, True), Suc w,
            fs\<lparr>files := (files fs)
               (os_path_join outlier_dir (basename file_path) \<mapsto> bytes,
                os_path_join outlier_dir (splitext_root (basename file_path) @ ''_info.txt'')
                  \<mapsto> outlier_note (basename file_path) file_path (now_isoformat e w))\<rparr>)"
    using assms
    by (simp add: process_excel_file_def load_workbook_def handle_outlier_file_def copy2_def
          write_file_def datetime_now_def Let_def)
  show ?thesis
    unfolding p using outlier_paths_differ[of outlier_dir file_path] by simp
qed

lemma notes_unrecognised: "identify_template_type [notes_sheet] = Inr None"
  by (simp add: identify_template_type_def questionnaire_check_def structure_check_def
        sample_text_def sample_row_def notes_sheet_def grid_of_def)

lemma notes_paths:
  "basename ''in/notes.v2.xlsx'' = ''notes.v2.xlsx''"
  "splitext_root ''notes.v2.xlsx'' = ''notes.v2''"
  "os_path_join ''outliers'' ''notes.v2.xlsx'' = ''outliers/notes.v2.xlsx''"
  "os_path_join ''outliers'' (''notes.v2'' @ ''_info.txt'') = ''outliers/notes.v2_info.txt''"
  by (simp_all add: basename_def splitext_root_def os_path_join_def)

theorem C7_outlier_routing_witness:
  "files disk1 ''in/notes.v2.xlsx'' = Some ''unknown-layout'' \<and>
   parse_workbook env1 ''unknown-layout'' = Inr [notes_sheet] \<and>
   identify_template_type [notes_sheet] = Inr None \<and>
   process_excel_file env1 ''in/notes.v2.xlsx'' ''out'' ''outliers'' 0 disk1 =
     ((True, True), 1,
      disk1\<lparr>files := (files disk1)
         (''outliers/notes.v2.xlsx'' \<mapsto> ''unknown-layout'',
          ''outliers/notes.v2_info.txt'' \<mapsto>
             outlier_note ''notes.v2.xlsx'' ''in/notes.v2.xlsx'' ''now-0'')\<rparr>)"
proof -
  have f: "files disk1 ''in/notes.v2.xlsx'' = Some ''unknown-layout''"
    by (simp add: disk1_def)
  have p: "parse_workbook env1 ''unknown-layout'' = Inr [notes_sheet]"
    by (simp add: env1_def)
  have n: "now_isoformat env1 0 = ''now-0''"
    by (simp add: env1_def env0_def str_nat.simps)
  from C7_outlier_routing [OF f p notes_unrecognised, of "''out''" "''outliers''" 0]
  have "process_excel_file env1 ''in/notes.v2.xlsx'' ''out'' ''outliers'' 0 disk1 =
     ((True, True), 1,
      disk1\<lparr>files := (files disk1)
         (''outliers/notes.v2.xlsx'' \<mapsto> ''unknown-layout'',
          ''outliers/notes.v2_info.txt'' \<mapsto>
             outlier_note ''notes.v2.xlsx'' ''in/notes.v2.xlsx'' ''now-0'')\<rparr>)"
    unfolding notes_paths n by simp
  with f p notes_unrecognised show ?thesis by simp
qed

subsection \<open>What extraction writes\<close>

lemma save_drawing_dirs: "dirs (disk (save_drawing dir d st)) = dirs (disk st)"
  by (auto simp: save_drawing_def Let_def write_file_def split: option.splits)

lemma save_drawing_files:
  "(\<And>n. p \<noteq> os_path_join dir (image_name n)) \<Longrightarrow>
   files (disk (save_drawing dir d st)) p = files (disk st) p"
  by (auto simp: save_drawing_def Let_def write_file_def split: option.splits)

lemma fold_save_drawing_disk:
  "dirs (disk (fold (save_drawing dir) ds st)) = dirs (disk st) \<and>
   ((\<forall>n. p \<noteq> os_path_join dir (image_name n)) \<longrightarrow>
      files (disk (fold (save_drawing dir) ds st)) p = files (disk st) p)"
  by (induction ds arbitrary: st) (simp_all add: save_drawing_dirs save_drawing_files)

lemma extract_images_disk:
  "dirs (snd (extract_images wb output_dir tt fs)) =
     insert (os_path_join output_dir ''images'') (dirs fs) \<and>
   ((\<forall>n. p \<noteq> os_path_join (os_path_join output_dir ''images'') (image_name n)) \<longrightarrow>
      files (snd (extract_images wb output_dir tt fs)) p = files fs p)"
  using fold_save_drawing_disk[of "os_path_join output_dir ''images''"
          "concat (map images wb)"
          "\<lparr>found = Map.empty, image_counter = 1,
            disk = makedirs (os_path_join output_dir ''images'') fs\<rparr>" p]
  by (simp add: extract_images_def Let_def fold_fold_concat makedirs_def)

lemma index_json_not_image:
  "os_path_join d ''index.json'' \<noteq> os_path_join (os_path_join d ''images'') (image_name n)"
  by (simp add: os_path_join_def image_name_def)

lemma index_json_not_xlsx:
  "os_path_join d ''index.json'' \<noteq> os_path_join d ''index.xlsx''"
  by (simp add: os_path_join_def)

subsection \<open>The driver on a recognised file\<close>

lemma process_excel_file_recognised:
  assumes "load_workbook e file_path fs = Inr wb"
    and "identify_template_type wb = Inr (Some tt)"
  shows "process_excel_file e file_path output_dir outlier_dir w fs =
     (case extract_metadata wb tt of
        Inl err \<Rightarrow>
          ((False, False), w,
           makedirs (os_path_join (document_dir output_dir file_path) ''images'') fs)
      | Inr md \<Rightarrow>
          (case extract_images wb (document_dir output_dir file_path) tt
                  (makedirs (os_path_join (document_dir output_dir file_path) ''images'') fs) of
             (m, fs2) \<Rightarrow>
          (case extract_questions e wb tt m w of
             Inl err \<Rightarrow> ((False, False), w, fs2)
           | Inr (qs, w1) \<Rightarrow>
          (case map_to_schema e md qs (basename file_path) w1 of
             (d, w2) \<Rightarrow>
               if fst (validate_extracted_data d) then
                 ((True, False), w2,
                  (case copy2 file_path
                          (os_path_join (document_dir output_dir file_path) ''index.xlsx'')
                          (write_file
                             (os_path_join (document_dir output_dir file_path) ''index.json'')
                             (json_dumps e d) fs2) of
                     Inl err \<Rightarrow>
                       write_file
                         (os_path_join (document_dir output_dir file_path) ''index.json'')
                         (json_dumps e d) fs2
                   | Inr fs' \<Rightarrow> fs'))
               else ((False, False), w2, fs2)))))"
  using assms
  by (simp add: process_excel_file_def document_dir_def Let_def
        split: sum.splits prod.splits)

lemma identify_nonempty:
  "identify_template_type wb = Inr r \<Longrightarrow> \<exists>sh rest. wb = sh # rest"
  by (cases wb) (simp_all add: identify_template_type_def)

lemma copy2_files:
  "copy2 src dst fs = Inr fs' \<Longrightarrow> p \<noteq> dst \<Longrightarrow> files fs' p = files fs p"
  by (auto simp: copy2_def write_file_def split: option.splits)

text \<open>
  C6 (as the code has it).  For a file that loads and is recognised: when metadata
  extraction faults, the driver reports failure and has only created the images
  directory.  Otherwise the images are extracted, the questions parsed and the document
  built; up to then the driver has created the images directory and written image files
  only, and \<open>index.json\<close> is as it was.  If validation fails, the driver reports failure
  and leaves exactly that state: the directory and the extracted image files remain, and
  \<open>index.json\<close> is not written.  If validation passes, the driver reports success and
  \<open>index.json\<close> holds the serialised document.
\<close>

theorem C6_index_json_only_after_validation:
  assumes "load_workbook e file_path fs = Inr wb"
    and "identify_template_type wb = Inr (Some tt)"
  shows
   "(\<forall>err. extract_metadata wb tt = Inl err \<longrightarrow>
        process_excel_file e file_path output_dir outlier_dir w fs =
          ((False, False), w,
           makedirs (os_path_join (document_dir output_dir file_path) ''images'') fs)) \<and>
    (\<forall>md. extract_metadata wb tt = Inr md \<longrightarrow>
       (\<exists>m fs2 qs w1 d w2.
          extract_images wb (document_dir output_dir file_path) tt
            (makedirs (os_path_join (document_dir output_dir file_path) ''images'') fs)
            = (m, fs2) \<and>
          extract_questions e wb tt m w = Inr (qs, w1) \<and>
          map_to_schema e md qs (basename file_path) w1 = (d, w2) \<and>
          dirs fs2 = insert (os_path_join (document_dir output_dir file_path) ''images'') (dirs fs) \<and>
          (\<forall>p. (\<forall>n. p \<noteq> os_path_join
                          (os_path_join (document_dir output_dir file_path) ''images'')
                          (image_name n)) \<longrightarrow>
               files fs2 p = files fs p) \<and>
          files fs2 (os_path_join (document_dir output_dir file_path) ''index.json'') =
            files fs (os_path_join (document_dir output_dir file_path) ''index.json'') \<and>
          (if fst (validate_extracted_data d)
           then (\<exists>fs4. process_excel_file e file_path output_dir outlier_dir w fs =
                         ((True, False), w2, fs4) \<and>
                       files fs4 (os_path_join (document_dir output_dir file_path) ''index.json'')
                         = Some (json_dumps e d))
           else process_excel_file e file_path output_dir outlier_dir w fs =
                  ((False, False), w2, fs2))))"
proof (intro conjI allI impI)
  fix err
  assume "extract_metadata wb tt = Inl err"
  then show "process_excel_file e file_path output_dir outlier_dir w fs =
          ((False, False), w,
           makedirs (os_path_join (document_dir output_dir file_path) ''images'') fs)"
    by (simp add: process_excel_file_recognised[OF assms])
next
  fix md
  assume md: "extract_metadata wb tt = Inr md"
  let ?dir = "document_dir output_dir file_path"
  let ?idx = "os_path_join ?dir ''index.json''"
  let ?fs1 = "makedirs (os_path_join ?dir ''images'') fs"
  obtain m fs2 where im: "extract_images wb ?dir tt ?fs1 = (m, fs2)" by force
  from identify_nonempty[OF assms(2)] obtain sh rest where wb: "wb = sh # rest" by blast
  obtain qs w1 where q: "extract_questions e wb tt m w = Inr (qs, w1)"
    unfolding wb extract_questions_returns by force
  obtain d w2 where ms: "map_to_schema e md qs (basename file_path) w1 = (d, w2)" by force
  have fs2: "fs2 = snd (extract_images wb ?dir tt ?fs1)" by (simp add: im)
  have dirs2: "dirs fs2 = insert (os_path_join ?dir ''images'') (dirs fs)"
    unfolding fs2 using extract_images_disk[of wb ?dir tt ?fs1] by (simp add: makedirs_def)
  have files2: "files fs2 p = files fs p"
    if "\<forall>n. p \<noteq> os_path_join (os_path_join ?dir ''images'') (image_name n)" for p
    unfolding fs2 using extract_images_disk[of wb ?dir tt ?fs1 p] that
    by (simp add: makedirs_def)
  have idx: "files fs2 ?idx = files fs ?idx"
    by (rule files2) (simp add: index_json_not_image)
  have run: "process_excel_file e file_path output_dir outlier_dir w fs =
               (if fst (validate_extracted_data d) then
                 ((True, False), w2,
                  (case copy2 file_path (os_path_join ?dir ''index.xlsx'')
                          (write_file ?idx (json_dumps e d) fs2) of
                     Inl err \<Rightarrow> write_file ?idx (json_dumps e d) fs2
                   | Inr fs' \<Rightarrow> fs'))
               else ((False, False), w2, fs2))"
    by (simp add: process_excel_file_recognised[OF assms] md im q ms)
  have written: "files (case copy2 file_path (os_path_join ?dir ''index.xlsx'')
                          (write_file ?idx (json_dumps e d) fs2) of
                     Inl err \<Rightarrow> write_file ?idx (json_dumps e d) fs2
                   | Inr fs' \<Rightarrow> fs') ?idx = Some (json_dumps e d)"
    by (auto simp: write_file_def index_json_not_xlsx dest!: copy2_files[where p = ?idx]
             split: sum.splits)
  show "\<exists>m fs2 qs w1 d w2.
          extract_images wb ?dir tt ?fs1 = (m, fs2) \<and>
          extract_questions e wb tt m w = Inr (qs, w1) \<and>
          map_to_schema e md qs (basename file_path) w1 = (d, w2) \<and>
          dirs fs2 = insert (os_path_join ?dir ''images'') (dirs fs) \<and>
          (\<forall>p. (\<forall>n. p \<noteq> os_path_join (os_path_join ?dir ''images'') (image_name n)) \<longrightarrow>
               files fs2 p = files fs p) \<and>
          files fs2 ?idx = files fs ?idx \<and>
          (if fst (validate_extracted_data d)
           then (\<exists>fs4. process_excel_file e file_path output_dir outlier_dir w fs =
                         ((True, False), w2, fs4) \<and>
                       files fs4 ?idx = Some (json_dumps e d))
           else process_excel_file e file_path output_dir outlier_dir w fs =
                  ((False, False), w2, fs2))"
    using im q ms dirs2 files2 idx run written
    by (intro exI[of _ m] exI[of _ fs2] exI[of _ qs] exI[of _ w1] exI[of _ d] exI[of _ w2])
       simp
qed

end
